theory Spec2Isabelle
  imports Complex_Main
begin

section \<open>JavaScript values used by server.js\<close>

text \<open>
  JavaScript numbers are IEEE doubles. Those that hold integers are modelled as
  \<^typ>\<open>int\<close>, quotients as \<^typ>\<open>real\<close>: the model computes what the code computes
  on integers below \<open>2 ^ 53\<close> in magnitude, where every integer is a double, a quotient
  by 60 or 1000 has the floor of the exact one, and a template literal renders the integer
  in decimal, with a leading minus sign when it is negative. Beyond that range the code
  rounds and the model does not.
\<close>

definition digit_char :: "nat \<Rightarrow> char" where
  "digit_char d = ''0123456789'' ! d"

fun nat_digits :: "nat \<Rightarrow> string" where
  "nat_digits n = (if n < 10 then [digit_char n] else nat_digits (n div 10) @ [digit_char (n mod 10)])"

declare nat_digits.simps [simp del]

definition Number_toString :: "int \<Rightarrow> string" where
  "Number_toString i = (if i < 0 then CHR ''-'' # nat_digits (nat (- i)) else nat_digits (nat i))"

section \<open>formatTime\<close>

text \<open>
  \<^verbatim>\<open>
  function formatTime(totalSeconds) {
    totalSeconds = Math.floor(totalSeconds);
    if (totalSeconds >= 60) {
      const minutes = Math.floor(totalSeconds / 60);
      const seconds = totalSeconds % 60;
      const minuteStr = minutes === 1 ? "minute" : "minutes";
      if (seconds > 0) {
        const secondStr = seconds === 1 ? "second" : "seconds";
        return `${minutes} ${minuteStr} and ${seconds} ${secondStr}`;
      }
      return `${minutes} ${minuteStr}`;
    }
    return totalSeconds === 1 ? "1 second" : `${totalSeconds} seconds`;
  }
  \<close>
  The remainder \<open>%\<close> of JavaScript takes the sign of the dividend; it is reached only
  with \<open>totalSeconds \<ge> 60\<close>, where it agrees with \<open>mod\<close>. The definition is the
  code's computation for \<open>totalSeconds\<close> below \<open>2 ^ 53\<close>; the program calls it with
  the intervals of the cascade only, 1800 at most.
\<close>

definition formatTime :: "real \<Rightarrow> string" where
  "formatTime totalSeconds0 =
     (let totalSeconds = \<lfloor>totalSeconds0\<rfloor> in
      if totalSeconds \<ge> 60 then
        (let minutes = \<lfloor>real_of_int totalSeconds / 60\<rfloor>;
             seconds = totalSeconds mod 60;
             minuteStr = (if minutes = 1 then ''minute'' else ''minutes'') in
         if seconds > 0 then
           (let secondStr = (if seconds = 1 then ''second'' else ''seconds'') in
            Number_toString minutes @ '' '' @ minuteStr @ '' and '' @
            Number_toString seconds @ '' '' @ secondStr)
         else Number_toString minutes @ '' '' @ minuteStr)
      else if totalSeconds = 1 then ''1 second''
      else Number_toString totalSeconds @ '' seconds'')"

text \<open>The rendering as section 4.3 of the specification words it, on integer seconds.\<close>

definition plural :: "string \<Rightarrow> int \<Rightarrow> string" where
  "plural unit_name n = (if n \<noteq> 1 then unit_name @ ''s'' else unit_name)"

definition formatTime_spec :: "int \<Rightarrow> string" where
  "formatTime_spec s =
     (if s \<ge> 60 then
        Number_toString (s div 60) @ '' '' @ plural ''minute'' (s div 60) @
        (if s mod 60 > 0 then
           '' and '' @ Number_toString (s mod 60) @ '' '' @ plural ''second'' (s mod 60)
         else '''')
      else Number_toString s @ '' '' @ plural ''second'' s)"

section \<open>Time values and the Date functions\<close>

text \<open>
  A Date holds a time value: the milliseconds since 1970-01-01T00:00:00Z, an integer.
  The functions below are the abstract operations by which ECMAScript defines
  \<open>getUTCFullYear\<close>, \<open>getUTCMonth\<close>, \<open>getUTCDate\<close>, \<open>Date.UTC\<close> and
  \<open>toISOString\<close>, on time values of any size: the limit of 8.64e15 milliseconds on
  either side of the epoch, beyond which a Date is invalid, is not modelled.
\<close>

definition msPerDay :: int where "msPerDay = 86400000"
definition msPerHour :: int where "msPerHour = 3600000"
definition msPerMinute :: int where "msPerMinute = 60000"
definition msPerSecond :: int where "msPerSecond = 1000"

definition Day :: "int \<Rightarrow> int" where
  "Day t = t div msPerDay"

definition DaysInYear :: "int \<Rightarrow> int" where
  "DaysInYear y =
     (if y mod 4 \<noteq> 0 then 365 else if y mod 100 \<noteq> 0 then 366
      else if y mod 400 \<noteq> 0 then 365 else 366)"

definition DayFromYear :: "int \<Rightarrow> int" where
  "DayFromYear y = 365 * (y - 1970) + (y - 1969) div 4 - (y - 1901) div 100 + (y - 1601) div 400"

definition TimeFromYear :: "int \<Rightarrow> int" where
  "TimeFromYear y = msPerDay * DayFromYear y"

text \<open>
  ECMAScript defines \<open>YearFromTime t\<close> as the largest \<open>y\<close> with
  \<open>TimeFromYear y \<le> t\<close>. The definition below computes it from the number of days since
  1601-01-01, through the cycles of 400, 100, 4 and 1 years; that it is that year is
  proved below (\<open>YearFromTime_largest\<close>).
\<close>

definition YearFromTime :: "int \<Rightarrow> int" where
  "YearFromTime t =
     (let d = Day t + 134774;
          c400 = d div 146097; r400 = d mod 146097;
          c100 = min 3 (r400 div 36524); r100 = r400 - c100 * 36524;
          c4 = r100 div 1461; r4 = r100 mod 1461;
          c1 = min 3 (r4 div 365)
      in 1601 + 400 * c400 + 100 * c100 + 4 * c4 + c1)"

definition InLeapYear :: "int \<Rightarrow> int" where
  "InLeapYear t = (if DaysInYear (YearFromTime t) = 366 then 1 else 0)"

definition DayWithinYear :: "int \<Rightarrow> int" where
  "DayWithinYear t = Day t - DayFromYear (YearFromTime t)"

definition MonthFromTime :: "int \<Rightarrow> int" where
  "MonthFromTime t =
     (let d = DayWithinYear t; leap = InLeapYear t in
      if d < 31 then 0
      else if d < 59 + leap then 1
      else if d < 90 + leap then 2
      else if d < 120 + leap then 3
      else if d < 151 + leap then 4
      else if d < 181 + leap then 5
      else if d < 212 + leap then 6
      else if d < 243 + leap then 7
      else if d < 273 + leap then 8
      else if d < 304 + leap then 9
      else if d < 334 + leap then 10
      else 11)"

definition DateFromTime :: "int \<Rightarrow> int" where
  "DateFromTime t =
     (let d = DayWithinYear t; leap = InLeapYear t; m = MonthFromTime t in
      if m = 0 then d + 1
      else if m = 1 then d - 30
      else if m = 2 then d - 58 - leap
      else if m = 3 then d - 89 - leap
      else if m = 4 then d - 119 - leap
      else if m = 5 then d - 150 - leap
      else if m = 6 then d - 180 - leap
      else if m = 7 then d - 211 - leap
      else if m = 8 then d - 242 - leap
      else if m = 9 then d - 272 - leap
      else if m = 10 then d - 303 - leap
      else d - 333 - leap)"

definition HourFromTime :: "int \<Rightarrow> int" where
  "HourFromTime t = (t div msPerHour) mod 24"

definition MinFromTime :: "int \<Rightarrow> int" where
  "MinFromTime t = (t div msPerMinute) mod 60"

definition SecFromTime :: "int \<Rightarrow> int" where
  "SecFromTime t = (t div msPerSecond) mod 60"

definition msFromTime :: "int \<Rightarrow> int" where
  "msFromTime t = t mod msPerSecond"

definition MakeTime :: "int \<Rightarrow> int \<Rightarrow> int \<Rightarrow> int \<Rightarrow> int" where
  "MakeTime hour minute sec ms = hour * msPerHour + minute * msPerMinute + sec * msPerSecond + ms"

text \<open>
  The first day of month \<open>mn\<close> (0 to 11) within its year. \<open>MakeDay\<close> is specified as
  the day of a time value \<open>t\<close> that lies in year \<open>ym\<close>, month \<open>mn\<close>, on the first of the
  month, plus \<open>date - 1\<close>; that the day computed here is the day of such a \<open>t\<close> is
  proved below (\<open>MakeDay_first_of_month\<close>).
\<close>

definition monthStart :: "int \<Rightarrow> int \<Rightarrow> int" where
  "monthStart mn leap =
     (if mn = 0 then 0
      else if mn = 1 then 31
      else if mn = 2 then 59 + leap
      else if mn = 3 then 90 + leap
      else if mn = 4 then 120 + leap
      else if mn = 5 then 151 + leap
      else if mn = 6 then 181 + leap
      else if mn = 7 then 212 + leap
      else if mn = 8 then 243 + leap
      else if mn = 9 then 273 + leap
      else if mn = 10 then 304 + leap
      else 334 + leap)"

definition MakeDay :: "int \<Rightarrow> int \<Rightarrow> int \<Rightarrow> int" where
  "MakeDay year month date =
     (let ym = year + month div 12;
          mn = month mod 12;
          leap = (if DaysInYear ym = 366 then 1 else 0)
      in DayFromYear ym + monthStart mn leap + date - 1)"

definition MakeDate :: "int \<Rightarrow> int \<Rightarrow> int" where
  "MakeDate day time = day * msPerDay + time"

text \<open>\<open>Date.UTC\<close> reads a year from 0 to 99 as a year of the twentieth century.\<close>

definition Date_UTC :: "int \<Rightarrow> int \<Rightarrow> int \<Rightarrow> int \<Rightarrow> int \<Rightarrow> int \<Rightarrow> int" where
  "Date_UTC year month date hours minutes seconds =
     (let yr = (if 0 \<le> year \<and> year \<le> 99 then 1900 + year else year)
      in MakeDate (MakeDay yr month date) (MakeTime hours minutes seconds 0))"

definition getUTCFullYear :: "int \<Rightarrow> int" where
  "getUTCFullYear t = YearFromTime t"

definition getUTCMonth :: "int \<Rightarrow> int" where
  "getUTCMonth t = MonthFromTime t"

definition getUTCDate :: "int \<Rightarrow> int" where
  "getUTCDate t = DateFromTime t"

definition pad_start :: "nat \<Rightarrow> string \<Rightarrow> string" where
  "pad_start n s = replicate (n - length s) CHR ''0'' @ s"

definition toISOString :: "int \<Rightarrow> string" where
  "toISOString t =
     (let y = YearFromTime t;
          year_str = (if 0 \<le> y \<and> y \<le> 9999 then pad_start 4 (Number_toString y)
                      else (if y < 0 then ''-'' else ''+'') @ pad_start 6 (Number_toString \<bar>y\<bar>))
      in year_str @ ''-'' @ pad_start 2 (Number_toString (MonthFromTime t + 1)) @
         ''-'' @ pad_start 2 (Number_toString (DateFromTime t)) @
         ''T'' @ pad_start 2 (Number_toString (HourFromTime t)) @
         '':'' @ pad_start 2 (Number_toString (MinFromTime t)) @
         '':'' @ pad_start 2 (Number_toString (SecFromTime t)) @
         ''.'' @ pad_start 3 (Number_toString (msFromTime t)) @ ''Z'')"

section \<open>getNextRestartTime\<close>

text \<open>
  \<^verbatim>\<open>
  function getNextRestartTime(timeString) {
    const [hours, minutes] = timeString.split(":").map(Number);
    const now = new Date();
    let next = new Date(Date.UTC(now.getUTCFullYear(), now.getUTCMonth(), now.getUTCDate(), hours, minutes, 0));
    if (next <= now) {
      next = new Date(next.getTime() + 24 * 60 * 60 * 1000);
    }
    return next;
  }
  \<close>
  The clock read by \<open>new Date()\<close> is the parameter \<open>now\<close>.
\<close>

fun split_on :: "char \<Rightarrow> string \<Rightarrow> string list" where
  "split_on c [] = [[]]"
| "split_on c (x # xs) =
     (if x = c then [] # split_on c xs
      else (case split_on c xs of [] \<Rightarrow> [[x]] | y # ys \<Rightarrow> (x # y) # ys))"

definition is_digit :: "char \<Rightarrow> bool" where
  "is_digit c = (c \<in> set ''0123456789'')"

definition digit_val :: "char \<Rightarrow> int" where
  "digit_val c = int (of_char c) - 48"

text \<open>
  \<open>Number(s)\<close> on a non-empty string of decimal digits is the number they write, leading
  zeros included. On every other string \<open>Number\<close> is not modelled (it reads signs,
  fractions, exponents, other bases and white space, and gives \<open>NaN\<close> on the rest): the
  result is \<open>None\<close>.
\<close>

definition Number_digits :: "string \<Rightarrow> int option" where
  "Number_digits s =
     (if s \<noteq> [] \<and> list_all is_digit s then Some (foldl (\<lambda>a c. 10 * a + digit_val c) 0 s)
      else None)"

text \<open>
  The Date that the code first assigns to \<open>next\<close>: today's date in UTC, at the given hour
  and minute.
\<close>

definition today_at :: "int \<Rightarrow> int \<Rightarrow> int \<Rightarrow> int" where
  "today_at hours minutes now =
     Date_UTC (getUTCFullYear now) (getUTCMonth now) (getUTCDate now) hours minutes 0"

text \<open>
  The result is \<open>None\<close> where the model of \<open>Number\<close> does not cover a part of the time
  string that the code reads, or where the string has no second part.
\<close>

definition getNextRestartTime :: "string \<Rightarrow> int \<Rightarrow> int option" where
  "getNextRestartTime timeString now =
     (case map Number_digits (split_on CHR '':'' timeString) of
        Some hours # Some minutes # _ \<Rightarrow>
          (let next = today_at hours minutes now
           in Some (if next \<le> now then next + 24 * 60 * 60 * 1000 else next))
      | _ \<Rightarrow> None)"

text \<open>
  A zero-padded \<open>HH:MM\<close> string, as the configuration documents it: two digits, a colon,
  two digits, the hour below 24 and the minute below 60.
\<close>

definition hh_of :: "string \<Rightarrow> int" where
  "hh_of s = 10 * digit_val (s ! 0) + digit_val (s ! 1)"

definition mm_of :: "string \<Rightarrow> int" where
  "mm_of s = 10 * digit_val (s ! 3) + digit_val (s ! 4)"

definition valid_hhmm :: "string \<Rightarrow> bool" where
  "valid_hhmm s =
     (length s = 5 \<and> is_digit (s ! 0) \<and> is_digit (s ! 1) \<and> s ! 2 = CHR '':'' \<and>
      is_digit (s ! 3) \<and> is_digit (s ! 4) \<and> hh_of s < 24 \<and> mm_of s < 60)"

section \<open>RconClient\<close>

text \<open>
  \<^verbatim>\<open>
  class RconClient {
    constructor(serverConfig) {
      this.name = serverConfig.name;
      this.host = serverConfig.host;
      this.port = serverConfig.port;
      this.password = serverConfig.password;
      this.url = `ws://${this.host}:${this.port}/${this.password}`;
      this.ws = null;
      this.callbacks = {};
      this.lastIdentifier = 1000;
      this.connect();
    }
  \<close>
  The client is a record of its fields; of the socket \<open>this.ws\<close> the code reads only
  \<open>readyState\<close>. What the program does to the outside is kept, in order, in the list
  \<open>effects\<close>: lines given to the logger, frames given to \<open>ws.send\<close>, reply callbacks
  called, timers set with \<open>setTimeout\<close> and requests posted to the webhook.
  A reply callback is a value of the type \<open>'cb\<close>; calling it is recorded, and it is
  taken to return without touching the client. (No call of \<open>sendCommand\<close> in server.js
  passes a callback.)
\<close>

datatype ready_state = CONNECTING | OPEN | CLOSING | CLOSED

record packet =
  Identifier :: int
  Message :: string
  Name :: string

text \<open>
  What \<open>JSON.parse\<close> returned for an inbound frame: \<open>null\<close>, or another value, of
  which the handler reads only the property \<open>Identifier\<close>: absent or \<open>null\<close>
  (\<open>None\<close>), or an integer. The rest of the value is carried as text. An
  \<open>Identifier\<close> of another JSON type is outside this model.
\<close>

datatype parsed = JNull | JValue "int option" string

datatype level = Info | Error

datatype js_error = TypeError

datatype outcome = Returned | Thrown js_error

text \<open>
  The functions given to \<open>setTimeout\<close>, each with the variables it closes over: the
  announcement of one interval (event time, schedule name, interval), the restart sequence
  (schedule name) and the delayed restart command.
\<close>

datatype task = Announce int string int | Terminal string | DelayedRestart

record embed =
  title :: string
  description :: string
  color :: int

datatype 'cb effect =
    Log level string
  | WsSend packet
  | Invoke 'cb parsed
  | SetTimeout task int
  | HttpsPost string string embed

record serverConfig =
  name :: string
  host :: string
  port :: int
  password :: string

record 'cb RconClient = serverConfig +
  url :: string
  readyState :: ready_state
  callbacks :: "int \<rightharpoonup> 'cb"
  lastIdentifier :: int
  effects :: "'cb effect list"

definition logger :: "level \<Rightarrow> string \<Rightarrow> 'cb RconClient \<Rightarrow> 'cb RconClient" where
  "logger lv line w = w\<lparr>effects := effects w @ [Log lv line]\<rparr>"

definition tag :: "'cb RconClient \<Rightarrow> string" where
  "tag w = ''['' @ name w @ ''] ''"

text \<open>
  \<^verbatim>\<open>
    connect() {
      logger.info(`[${this.name}] Connecting to RCON at ${this.url}`);
      this.ws = new WebSocket(this.url);
      this.ws.on("open", () => { logger.info(`[${this.name}] Connected`); });
      this.ws.on("message", (data) => { ... });
      this.ws.on("close", () => { logger.info(`[${this.name}] Connection closed`); });
      this.ws.on("error", (err) => { logger.error(`[${this.name}] Connection error: ${err}`); });
    }
  \<close>
  A new socket is connecting. The socket is open from its \<open>open\<close> event on and closed
  from its \<open>close\<close> event on. Before \<open>connect\<close>, which the constructor calls last,
  \<open>this.ws\<close> is \<open>null\<close>; the record is built with \<open>CLOSED\<close> there.
\<close>

definition connect :: "'cb RconClient \<Rightarrow> 'cb RconClient" where
  "connect w = (logger Info (tag w @ ''Connecting to RCON at '' @ url w) w)\<lparr>readyState := CONNECTING\<rparr>"

definition new_RconClient :: "serverConfig \<Rightarrow> 'cb RconClient" where
  "new_RconClient cfg =
     connect \<lparr>name = name cfg, host = host cfg, port = port cfg, password = password cfg,
       url = ''ws://'' @ host cfg @ '':'' @ Number_toString (port cfg) @ ''/'' @ password cfg,
       readyState = CLOSED, callbacks = Map.empty, lastIdentifier = 1000, effects = []\<rparr>"

definition on_open :: "'cb RconClient \<Rightarrow> 'cb RconClient" where
  "on_open w = logger Info (tag w @ ''Connected'') (w\<lparr>readyState := OPEN\<rparr>)"

definition on_close :: "'cb RconClient \<Rightarrow> 'cb RconClient" where
  "on_close w = logger Info (tag w @ ''Connection closed'') (w\<lparr>readyState := CLOSED\<rparr>)"

definition on_error :: "string \<Rightarrow> 'cb RconClient \<Rightarrow> 'cb RconClient" where
  "on_error err w = logger Error (tag w @ ''Connection error: '' @ err) w"

text \<open>
  \<^verbatim>\<open>
      this.ws.on("message", (data) => {
        let message;
        try {
          message = JSON.parse(data);
        } catch (e) {
          logger.error(`[${this.name}] Error parsing message: ${data}`);
          return;
        }
        if (message.Identifier && message.Identifier > 1000) {
          const cb = this.callbacks[message.Identifier];
          if (cb) {
            cb(message);
            delete this.callbacks[message.Identifier];
          }
          return;
        }
      });
  \<close>
  The handler takes the frame's text and what \<open>JSON.parse\<close> made of it (\<open>None\<close> when it
  threw). Reading a property of \<open>null\<close> throws a TypeError, which nothing in the handler
  catches; nothing has been changed by then.
\<close>

definition on_message :: "string \<Rightarrow> parsed option \<Rightarrow> 'cb RconClient \<Rightarrow> outcome \<times> 'cb RconClient" where
  "on_message data parse_result w =
     (case parse_result of
        None \<Rightarrow> (Returned, logger Error (tag w @ ''Error parsing message: '' @ data) w)
      | Some JNull \<Rightarrow> (Thrown TypeError, w)
      | Some (JValue None body) \<Rightarrow> (Returned, w)
      | Some (JValue (Some i) body) \<Rightarrow>
          (if i \<noteq> 0 \<and> i > 1000 then
             (case callbacks w i of
                Some cb \<Rightarrow>
                  (Returned,
                   w\<lparr>effects := effects w @ [Invoke cb (JValue (Some i) body)],
                     callbacks := (callbacks w)(i := None)\<rparr>)
              | None \<Rightarrow> (Returned, w))
           else (Returned, w)))"

text \<open>
  \<^verbatim>\<open>
    sendCommand(cmd, callback) {
      if (this.ws.readyState !== WebSocket.OPEN) {
        logger.error(`[${this.name}] WebSocket not open. Cannot send: ${cmd}`);
        return;
      }
      let identifier = -1;
      if (callback) {
        this.lastIdentifier++;
        identifier = this.lastIdentifier;
        this.callbacks[identifier] = callback;
      }
      const packet = { Identifier: identifier, Message: cmd, Name: "NodeRcon" };
      this.ws.send(JSON.stringify(packet));
      logger.info(`[${this.name}] Sent command: ${cmd}`);
    }
  \<close>
  The frame is kept as the object given to \<open>JSON.stringify\<close>.
\<close>

definition sendCommand :: "string \<Rightarrow> 'cb option \<Rightarrow> 'cb RconClient \<Rightarrow> 'cb RconClient" where
  "sendCommand cmd callback w =
     (if readyState w \<noteq> OPEN then
        logger Error (tag w @ ''WebSocket not open. Cannot send: '' @ cmd) w
      else
        (let w1 = (case callback of
                     None \<Rightarrow> w
                   | Some cb \<Rightarrow>
                       w\<lparr>lastIdentifier := lastIdentifier w + 1,
                         callbacks := (callbacks w)(lastIdentifier w + 1 \<mapsto> cb)\<rparr>);
             identifier = (case callback of None \<Rightarrow> - 1 | Some cb \<Rightarrow> lastIdentifier w1);
             packet = \<lparr>Identifier = identifier, Message = cmd, Name = ''NodeRcon''\<rparr>;
             w2 = w1\<lparr>effects := effects w1 @ [WsSend packet]\<rparr>
         in logger Info (tag w2 @ ''Sent command: '' @ cmd) w2))"

text \<open>
  \<^verbatim>\<open>
    sendAnnouncement(message) {
      const prefix = "[Notification] ";
      const fullMessage = `${prefix}${message}`;
      this.sendCommand(`say ${fullMessage}`);
    }
    saveServer() { this.sendCommand("server.save"); }
    restartServer() { this.sendCommand("restart 0"); }
  \<close>
\<close>

definition sendAnnouncement :: "string \<Rightarrow> 'cb RconClient \<Rightarrow> 'cb RconClient" where
  "sendAnnouncement message w =
     (let prefix = ''[Notification] ''; fullMessage = prefix @ message
      in sendCommand (''say '' @ fullMessage) None w)"

definition saveServer :: "'cb RconClient \<Rightarrow> 'cb RconClient" where
  "saveServer w = sendCommand ''server.save'' None w"

definition restartServer :: "'cb RconClient \<Rightarrow> 'cb RconClient" where
  "restartServer w = sendCommand ''restart 0'' None w"

section \<open>sendDiscordNotification\<close>

text \<open>
  \<^verbatim>\<open>
  const globalDiscordWebhook = config.discordWebhook || null;

  function sendDiscordNotification(webhookUrl, serverName, restartType, reconnectMsg) {
    const payload = JSON.stringify({
      embeds: [{ title: `${serverName} - ${restartType}`, description: reconnectMsg, color: 16711680 }]
    });
    try {
      const parsedUrl = new URL(webhookUrl);
      const options = { hostname: parsedUrl.hostname, path: parsedUrl.pathname + parsedUrl.search,
                        method: "POST", headers: { ... } };
      const req = https.request(options, (res) => { res.on("data", () => {}); });
      req.on("error", (err) => { logger.error(`[${serverName}] Discord webhook error: ${err}`); });
      req.write(payload);
      req.end();
      logger.info(`[${serverName}] Discord notification sent.`);
    } catch (error) {
      logger.error(`[${serverName}] Failed to send Discord notification: ${error}`);
    }
  }
  \<close>
  The configuration's \<open>discordWebhook\<close> and the parser \<open>new URL\<close> of the runtime are
  parameters: \<open>parse_URL\<close> gives the host name and the path with the query, or the text of
  the error it throws. The request is kept as the one embed of its payload.
\<close>

record environment =
  discordWebhook :: "string option"
  parse_URL :: "string \<Rightarrow> string + string \<times> string"

definition globalDiscordWebhook :: "environment \<Rightarrow> string option" where
  "globalDiscordWebhook env =
     (case discordWebhook env of None \<Rightarrow> None | Some u \<Rightarrow> if u = [] then None else Some u)"

definition sendDiscordNotification ::
  "environment \<Rightarrow> string \<Rightarrow> string \<Rightarrow> string \<Rightarrow> string \<Rightarrow> 'cb RconClient \<Rightarrow> 'cb RconClient" where
  "sendDiscordNotification env webhookUrl serverName restartType reconnectMsg w =
     (let payload = \<lparr>title = serverName @ '' - '' @ restartType, description = reconnectMsg,
                      color = 16711680\<rparr>
      in case parse_URL env webhookUrl of
           Inr (hostname, path) \<Rightarrow>
             logger Info (''['' @ serverName @ ''] Discord notification sent.'')
               (w\<lparr>effects := effects w @ [HttpsPost hostname path payload]\<rparr>)
         | Inl err \<Rightarrow>
             logger Error (''['' @ serverName @ ''] Failed to send Discord notification: '' @ err) w)"

section \<open>scheduleRestart\<close>

text \<open>
  \<^verbatim>\<open>
  function scheduleRestart(rconClient, eventTime, scheduleName = "Daily restart") {
    const now = new Date();
    const msUntilRestart = eventTime - now;
    if (msUntilRestart <= 0) {
      logger.info(`[${rconClient.name}] Event time already passed.`);
      return;
    }
    logger.info(`[${rconClient.name}] Scheduling ${scheduleName} at ${eventTime.toISOString()} (in ${Math.floor(msUntilRestart / 1000)} seconds)`);
    const intervals = [1800, 1200, 900, 600, 300, 120, 60, 30, 10, 5];
    intervals.forEach((interval) => {
      if (msUntilRestart / 1000 > interval) {
        const delay = msUntilRestart - interval * 1000;
        setTimeout(() => {
          const remaining = (eventTime - new Date()) / 1000;
          if (remaining >= interval - 1) {
            rconClient.sendAnnouncement(`${scheduleName} in ${formatTime(interval)}`);
            logger.info(`[${rconClient.name}] Announced: ${scheduleName} in ${formatTime(interval)}`);
          }
        }, delay);
      }
    });
    setTimeout(() => {
      if (globalDiscordWebhook) {
        sendDiscordNotification(globalDiscordWebhook, rconClient.name, scheduleName, "Reconnect in 5 minutes");
      }
      rconClient.sendAnnouncement("Restarting now...");
      rconClient.saveServer();
      setTimeout(() => { rconClient.restartServer(); }, 2000);
      logger.info(`[${rconClient.name}] Executed restart`);
    }, msUntilRestart);
  }
  \<close>
  The event time is a valid Date, given by its time value. The clock read by
  \<open>new Date()\<close> is the parameter \<open>now\<close>, at arming and again when a timer fires.
  \<open>setTimeout\<close> is kept as the function and the delay that it is given; when the runtime
  calls the function is not part of the model.
\<close>

definition setTimeout :: "task \<Rightarrow> int \<Rightarrow> 'cb RconClient \<Rightarrow> 'cb RconClient" where
  "setTimeout callback delay w = w\<lparr>effects := effects w @ [SetTimeout callback delay]\<rparr>"

definition intervals :: "int list" where
  "intervals = [1800, 1200, 900, 600, 300, 120, 60, 30, 10, 5]"

definition scheduleRestart :: "int \<Rightarrow> string \<Rightarrow> int \<Rightarrow> 'cb RconClient \<Rightarrow> 'cb RconClient" where
  "scheduleRestart eventTime scheduleName now w =
     (let msUntilRestart = eventTime - now in
      if msUntilRestart \<le> 0 then logger Info (tag w @ ''Event time already passed.'') w
      else
        (let w1 = logger Info
                    (tag w @ ''Scheduling '' @ scheduleName @ '' at '' @ toISOString eventTime @
                     '' (in '' @ Number_toString \<lfloor>real_of_int msUntilRestart / 1000\<rfloor> @ '' seconds)'') w;
             w2 = foldl
                    (\<lambda>w' interval.
                       if real_of_int msUntilRestart / 1000 > real_of_int interval then
                         (let delay = msUntilRestart - interval * 1000
                          in setTimeout (Announce eventTime scheduleName interval) delay w')
                       else w')
                    w1 intervals
         in setTimeout (Terminal scheduleName) msUntilRestart w2))"

text \<open>What a timer's function does when it is called, with the clock at \<open>now\<close>.\<close>

fun run_task :: "environment \<Rightarrow> task \<Rightarrow> int \<Rightarrow> 'cb RconClient \<Rightarrow> 'cb RconClient" where
  "run_task env (Announce eventTime scheduleName interval) now w =
     (let remaining = real_of_int (eventTime - now) / 1000 in
      if remaining \<ge> real_of_int interval - 1 then
        (let w1 = sendAnnouncement (scheduleName @ '' in '' @ formatTime (real_of_int interval)) w
         in logger Info
              (tag w1 @ ''Announced: '' @ scheduleName @ '' in '' @ formatTime (real_of_int interval)) w1)
      else w)"
| "run_task env (Terminal scheduleName) now w =
     (let w1 = (case globalDiscordWebhook env of
                  Some webhook \<Rightarrow>
                    sendDiscordNotification env webhook (name w) scheduleName ''Reconnect in 5 minutes'' w
                | None \<Rightarrow> w);
          w2 = sendAnnouncement ''Restarting now...'' w1;
          w3 = saveServer w2;
          w4 = setTimeout DelayedRestart 2000 w3
      in logger Info (tag w4 @ ''Executed restart'') w4)"
| "run_task env DelayedRestart now w = restartServer w"

section \<open>Histories of a client\<close>

text \<open>
  What can happen to a client after its construction: a command is sent, with or without a
  reply callback; the socket opens, closes, reports an error or delivers a frame; a restart
  is scheduled; a timer's function is called. An exception that a handler throws ends the
  history (nothing in the program catches it).
\<close>

datatype 'cb event =
    Send string "'cb option"
  | Frame string "parsed option"
  | SocketOpen
  | SocketClose
  | SocketError string
  | Arm int string int
  | Fire task int

fun step :: "environment \<Rightarrow> 'cb event \<Rightarrow> 'cb RconClient \<Rightarrow> outcome \<times> 'cb RconClient" where
  "step env (Send cmd callback) w = (Returned, sendCommand cmd callback w)"
| "step env (Frame data parse_result) w = on_message data parse_result w"
| "step env SocketOpen w = (Returned, on_open w)"
| "step env SocketClose w = (Returned, on_close w)"
| "step env (SocketError err) w = (Returned, on_error err w)"
| "step env (Arm eventTime scheduleName now) w = (Returned, scheduleRestart eventTime scheduleName now w)"
| "step env (Fire t now) w = (Returned, run_task env t now w)"

fun run :: "environment \<Rightarrow> 'cb event list \<Rightarrow> 'cb RconClient \<Rightarrow> outcome \<times> 'cb RconClient" where
  "run env [] w = (Returned, w)"
| "run env (e # es) w =
     (case step env e w of
        (Returned, w') \<Rightarrow> run env es w'
      | (Thrown x, w') \<Rightarrow> (Thrown x, w'))"

text \<open>
  What an operation adds to the effects of a client, and the frames sent, timers set and
  callbacks called among given effects.
\<close>

definition done_by :: "('cb RconClient \<Rightarrow> 'cb RconClient) \<Rightarrow> 'cb RconClient \<Rightarrow> 'cb effect list" where
  "done_by f w = drop (length (effects w)) (effects (f w))"

fun frames :: "'cb effect list \<Rightarrow> packet list" where
  "frames [] = []"
| "frames (WsSend p # es) = p # frames es"
| "frames (e # es) = frames es"

fun timers :: "'cb effect list \<Rightarrow> (task \<times> int) list" where
  "timers [] = []"
| "timers (SetTimeout t d # es) = (t, d) # timers es"
| "timers (e # es) = timers es"

fun calls :: "'cb effect list \<Rightarrow> ('cb \<times> parsed) list" where
  "calls [] = []"
| "calls (Invoke cb m # es) = (cb, m) # calls es"
| "calls (e # es) = calls es"

text \<open>
  The effects of one command sent without a callback, and of the webhook call of the
  restart sequence, written out for the statements below.
\<close>

definition command_effects :: "'cb RconClient \<Rightarrow> string \<Rightarrow> 'cb effect list" where
  "command_effects w cmd =
     (if readyState w = OPEN then
        [WsSend \<lparr>Identifier = - 1, Message = cmd, Name = ''NodeRcon''\<rparr>,
         Log Info (''['' @ name w @ ''] Sent command: '' @ cmd)]
      else [Log Error (''['' @ name w @ ''] WebSocket not open. Cannot send: '' @ cmd)])"

definition webhook_effects :: "environment \<Rightarrow> string \<Rightarrow> string \<Rightarrow> 'cb effect list" where
  "webhook_effects env serverName scheduleName =
     (case globalDiscordWebhook env of
        None \<Rightarrow> []
      | Some webhook \<Rightarrow>
          (case parse_URL env webhook of
             Inr (hostname, path) \<Rightarrow>
               [HttpsPost hostname path
                  \<lparr>title = serverName @ '' - '' @ scheduleName, description = ''Reconnect in 5 minutes'',
                   color = 16711680\<rparr>,
                Log Info (''['' @ serverName @ ''] Discord notification sent.'')]
           | Inl err \<Rightarrow>
               [Log Error (''['' @ serverName @ ''] Failed to send Discord notification: '' @ err)]))"

text \<open>
  The identifiers of the frames sent with a callback, in the order of sending: a frame
  sent without one carries \<open>-1\<close>.
\<close>

definition issued_ids :: "'cb effect list \<Rightarrow> int list" where
  "issued_ids es = filter (\<lambda>i. i \<noteq> - 1) (map Identifier (frames es))"

text \<open>
  What holds of a client throughout its life: the counter is at least 1000, every pending
  callback is stored under an identifier above 1000 that the counter has reached, and the
  identifiers sent so far increase strictly, lie above 1000 and have been reached by the
  counter.
\<close>

definition client_inv :: "'cb RconClient \<Rightarrow> bool" where
  "client_inv w =
     (1000 \<le> lastIdentifier w \<and>
      (\<forall>k. callbacks w k \<noteq> None \<longrightarrow> 1000 < k \<and> k \<le> lastIdentifier w) \<and>
      sorted_wrt (<) (issued_ids (effects w)) \<and>
      (\<forall>i \<in> set (issued_ids (effects w)). 1000 < i \<and> i \<le> lastIdentifier w))"

text \<open>An operation that leaves the counter, the callbacks and the identifiers sent as they are.\<close>

definition quiet :: "'cb RconClient \<Rightarrow> 'cb RconClient \<Rightarrow> bool" where
  "quiet w w' =
     (lastIdentifier w' = lastIdentifier w \<and> callbacks w' = callbacks w \<and>
      issued_ids (effects w') = issued_ids (effects w) \<and> calls (effects w') = calls (effects w))"

fun is_Terminal :: "task \<Rightarrow> bool" where
  "is_Terminal (Terminal scheduleName) = True"
| "is_Terminal t = False"

text \<open>A client and an environment to evaluate the operations on.\<close>

definition example_config :: serverConfig where
  "example_config = \<lparr>name = ''Main'', host = ''localhost'', port = 28016, password = ''secret''\<rparr>"

definition example_client :: "nat RconClient" where
  "example_client = new_RconClient example_config"

definition example_environment :: environment where
  "example_environment =
     \<lparr>discordWebhook = Some ''https://discord.com/api/webhooks/1/abc'',
      parse_URL = (\<lambda>u. if u = ''https://discord.com/api/webhooks/1/abc''
                         then Inr (''discord.com'', ''/api/webhooks/1/abc'')
                         else Inl ''TypeError: Invalid URL'')\<rparr>"

section \<open>Properties of formatTime\<close>

lemma Number_toString_1: "Number_toString 1 = ''1''"
  by (simp add: Number_toString_def nat_digits.simps digit_char_def)

lemma formatTime_of_int:
  "formatTime (real_of_int s) =
     (if s \<ge> 60 then
        (if s mod 60 > 0 then
           Number_toString (s div 60) @ '' '' @ (if s div 60 = 1 then ''minute'' else ''minutes'') @
           '' and '' @ Number_toString (s mod 60) @ '' '' @
           (if s mod 60 = 1 then ''second'' else ''seconds'')
         else Number_toString (s div 60) @ '' '' @ (if s div 60 = 1 then ''minute'' else ''minutes''))
      else if s = 1 then ''1 second'' else Number_toString s @ '' seconds'')"
proof -
  have fl: "\<lfloor>real_of_int s / 60\<rfloor> = s div 60"
    using floor_divide_of_int_eq [of s 60] by simp
  show ?thesis
    unfolding formatTime_def Let_def floor_of_int fl by simp
qed

text \<open>
  C4. On every non-negative integer number of seconds below \<open>2 ^ 53\<close>, formatTime renders
  what the specification describes: minutes (plural unless 1) and, when the remainder is
  positive, \<open>and\<close> the remaining seconds (plural unless 1); below a minute, the seconds
  with the singular \<open>1 second\<close>. The five examples of the specification are part of the
  statement. The bound is the range in which the integers of the model are the numbers
  the code computes with.
\<close>

theorem formatTime_matches_spec:
  "(0 \<le> s \<and> s < 2 ^ 53 \<longrightarrow> formatTime (real_of_int s) = formatTime_spec s)
   \<and> formatTime 5 = ''5 seconds''
   \<and> formatTime 1 = ''1 second''
   \<and> formatTime 90 = ''1 minute and 30 seconds''
   \<and> formatTime 120 = ''2 minutes''
   \<and> formatTime 61 = ''1 minute and 1 second''"
proof -
  have gen: "formatTime (real_of_int s) = formatTime_spec s"
    unfolding formatTime_of_int formatTime_spec_def plural_def
    by (simp add: Number_toString_1)
  have e5: "formatTime 5 = ''5 seconds''"
    using formatTime_of_int [of 5]
    by (simp add: Number_toString_def nat_digits.simps digit_char_def)
  have e1: "formatTime 1 = ''1 second''"
    using formatTime_of_int [of 1] by simp
  have e90: "formatTime 90 = ''1 minute and 30 seconds''"
    using formatTime_of_int [of 90]
    by (simp add: Number_toString_def nat_digits.simps digit_char_def)
  have e120: "formatTime 120 = ''2 minutes''"
    using formatTime_of_int [of 120]
    by (simp add: Number_toString_def nat_digits.simps digit_char_def)
  have e61: "formatTime 61 = ''1 minute and 1 second''"
    using formatTime_of_int [of 61]
    by (simp add: Number_toString_def nat_digits.simps digit_char_def)
  from gen e5 e1 e90 e120 e61 show ?thesis by simp
qed

theorem formatTime_matches_spec_witness:
  "(0 :: int) \<le> 150 \<and> (150 :: int) < 2 ^ 53 \<and>
   formatTime (real_of_int 150) = ''2 minutes and 30 seconds''"
  using formatTime_matches_spec [of 150]
  by (simp add: formatTime_spec_def plural_def Number_toString_def nat_digits.simps digit_char_def)

section \<open>Properties of the Date functions\<close>

lemma div4: fixes m c :: int assumes "0 \<le> c" "c < 4" shows "(4 * m + c) div 4 = m"
  using assms by simp
lemma div100: fixes m c :: int assumes "0 \<le> c" "c < 100" shows "(100 * m + c) div 100 = m"
  using assms by simp
lemma div400: fixes m c :: int assumes "0 \<le> c" "c < 400" shows "(400 * m + c) div 400 = m"
  using assms by simp

lemma DayFromYear_cycle:
  fixes q a b c :: int
  assumes "0 \<le> a" "a \<le> 3" "0 \<le> b" "b \<le> 24" "0 \<le> c" "c \<le> 3"
  shows "DayFromYear (1601 + 400 * q + 100 * a + 4 * b + c) =
         146097 * q + 36524 * a + 1461 * b + 365 * c - 134774"
proof -
  let ?y = "1601 + 400 * q + 100 * a + 4 * b + c"
  have e4: "?y - 1969 = 4 * (100 * q + 25 * a + b - 92) + c" by simp
  have e100: "?y - 1901 = 100 * (4 * q + a - 3) + (4 * b + c)" by simp
  have e400: "?y - 1601 = 400 * q + (100 * a + 4 * b + c)" by simp
  have d4: "(?y - 1969) div 4 = 100 * q + 25 * a + b - 92"
    unfolding e4 using assms by (intro div4) auto
  have d100: "(?y - 1901) div 100 = 4 * q + a - 3"
    unfolding e100 using assms by (intro div100) auto
  have d400: "(?y - 1601) div 400 = q"
    unfolding e400 using assms by (intro div400) auto
  show ?thesis
    unfolding DayFromYear_def d4 d100 d400 by simp
qed



lemma YearFromTime_bounds:
  "DayFromYear (YearFromTime t) \<le> Day t \<and> Day t < DayFromYear (YearFromTime t + 1)"
proof -
  define d where "d = Day t + 134774"
  define q where "q = d div 146097"
  define r where "r = d mod 146097"
  define k where "k = r div 36524"
  define m where "m = r mod 36524"
  define a where "a = min 3 k"
  define r1 where "r1 = r - a * 36524"
  define b where "b = r1 div 1461"
  define r2 where "r2 = r1 mod 1461"
  define j where "j = r2 div 365"
  define n where "n = r2 mod 365"
  define c where "c = min 3 j"
  have y: "YearFromTime t = 1601 + 400 * q + 100 * a + 4 * b + c"
    unfolding YearFromTime_def Let_def c_def j_def r2_def b_def r1_def a_def k_def r_def q_def d_def
    by simp
  have r: "0 \<le> r" "r < 146097" unfolding r_def by simp_all
  have km: "r = 36524 * k + m" "0 \<le> m" "m < 36524" unfolding k_def m_def by simp_all
  have k: "0 \<le> k" "k \<le> 4" using r km by linarith+
  have a: "0 \<le> a" "a \<le> 3" unfolding a_def using k by simp_all
  have r1: "0 \<le> r1" "r1 \<le> 36524" "a < 3 \<Longrightarrow> r1 < 36524"
    unfolding r1_def a_def using r km k by (simp_all add: min_def split: if_splits)
  have bm: "r1 = 1461 * b + r2" "0 \<le> r2" "r2 < 1461" unfolding b_def r2_def by simp_all
  have b: "0 \<le> b" "b \<le> 24" using r1 bm by linarith+
  have jn: "r2 = 365 * j + n" "0 \<le> n" "n < 365" unfolding j_def n_def by simp_all
  have j: "0 \<le> j" "j \<le> 4" using bm jn by linarith+
  have c: "0 \<le> c" "c \<le> 3" unfolding c_def using j by simp_all
  have dt: "Day t = 146097 * q + 36524 * a + 1461 * b + r2 - 134774"
  proof -
    have "d = 146097 * q + r" unfolding q_def r_def by simp
    then show ?thesis using bm(1) unfolding d_def r1_def by simp
  qed
  have lower: "DayFromYear (YearFromTime t) \<le> Day t"
  proof -
    have "365 * c \<le> r2" unfolding c_def using jn j by (simp add: min_def split: if_splits)
    then show ?thesis unfolding y dt DayFromYear_cycle [OF a b c] by simp
  qed
  have upper: "Day t < DayFromYear (YearFromTime t + 1)"
  proof -
    consider (c1) "c < 3" | (b1) "c = 3" "b < 24" | (a1) "c = 3" "b = 24" "a < 3"
      | (q1) "c = 3" "b = 24" "a = 3"
      using a b c by linarith
    then show ?thesis
    proof cases
      case c1
      have e: "YearFromTime t + 1 = 1601 + 400 * q + 100 * a + 4 * b + (c + 1)"
        unfolding y by simp
      have "r2 < 365 * c + 365" using c1 jn j unfolding c_def by (simp add: min_def split: if_splits)
      moreover have "DayFromYear (YearFromTime t + 1) = 146097 * q + 36524 * a + 1461 * b + 365 * (c + 1) - 134774"
        unfolding e using a b c c1 by (intro DayFromYear_cycle) simp_all
      ultimately show ?thesis unfolding dt by simp
    next
      case b1
      have e: "YearFromTime t + 1 = 1601 + 400 * q + 100 * a + 4 * (b + 1) + 0"
        unfolding y using b1 by simp
      have "DayFromYear (YearFromTime t + 1) = 146097 * q + 36524 * a + 1461 * (b + 1) + 365 * 0 - 134774"
        unfolding e using a b b1 by (intro DayFromYear_cycle) simp_all
      then show ?thesis unfolding dt using bm b1 by simp
    next
      case a1
      have e: "YearFromTime t + 1 = 1601 + 400 * q + 100 * (a + 1) + 4 * 0 + 0"
        unfolding y using a1 by simp
      have "DayFromYear (YearFromTime t + 1) = 146097 * q + 36524 * (a + 1) + 1461 * 0 + 365 * 0 - 134774"
        unfolding e using a a1 by (intro DayFromYear_cycle) simp_all
      moreover have "r1 < 36524" using a1 r1 by simp
      ultimately show ?thesis unfolding dt using bm a1 by simp
    next
      case q1
      have e: "YearFromTime t + 1 = 1601 + 400 * (q + 1) + 100 * 0 + 4 * 0 + 0"
        unfolding y using q1 by simp
      have "DayFromYear (YearFromTime t + 1) = 146097 * (q + 1) + 36524 * 0 + 1461 * 0 + 365 * 0 - 134774"
        unfolding e by (intro DayFromYear_cycle) simp_all
      then show ?thesis unfolding dt using bm r1 q1 by simp
    qed
  qed
  from lower upper show ?thesis ..
qed

lemma DayFromYear_mono_step: "DayFromYear y < DayFromYear (y + 1)"
proof -
  define A where "A = (y - 1969) div 4"
  define B where "B = (y - 1901) div 100"
  define C where "C = (y - 1601) div 400"
  define A' where "A' = (y + 1 - 1969) div 4"
  define B' where "B' = (y + 1 - 1901) div 100"
  define C' where "C' = (y + 1 - 1601) div 400"
  have "A \<le> A'" unfolding A_def A'_def by (intro zdiv_mono1) simp_all
  moreover have "B' \<le> B + 1"
  proof -
    have "B' \<le> (y - 1901 + 100) div 100" unfolding B'_def by (intro zdiv_mono1) simp_all
    then show ?thesis unfolding B_def by simp
  qed
  moreover have "C \<le> C'" unfolding C_def C'_def by (intro zdiv_mono1) simp_all
  moreover have "DayFromYear y = 365 * (y - 1970) + A - B + C"
    by (simp only: DayFromYear_def A_def B_def C_def)
  moreover have "DayFromYear (y + 1) = 365 * (y + 1 - 1970) + A' - B' + C'"
    by (simp only: DayFromYear_def A'_def B'_def C'_def)
  ultimately show ?thesis by simp
qed

lemma DayFromYear_mono: "y \<le> y' \<Longrightarrow> DayFromYear y \<le> DayFromYear y'"
proof (induction y' rule: int_ge_induct)
  case base
  show ?case by simp
next
  case (step i)
  then show ?case using DayFromYear_mono_step [of i] by linarith
qed

lemma DayFromYear_strict_mono: "y < y' \<Longrightarrow> DayFromYear y < DayFromYear y'"
  using DayFromYear_mono [of "y + 1" y'] DayFromYear_mono_step [of y] by linarith

lemma le_div_iff_int:
  fixes a t m :: int
  assumes "0 < m"
  shows "a \<le> t div m \<longleftrightarrow> a * m \<le> t"
proof
  assume "a \<le> t div m"
  then have "a * m \<le> t div m * m" using assms by (simp add: mult_right_mono)
  also have "t div m * m = t - t mod m" by (simp add: minus_mod_eq_div_mult)
  also have "\<dots> \<le> t" using assms by simp
  finally show "a * m \<le> t" .
next
  assume "a * m \<le> t"
  then have "a * m div m \<le> t div m" using assms by (intro zdiv_mono1)
  then show "a \<le> t div m" using assms by simp
qed

lemma TimeFromYear_le_iff: "TimeFromYear y \<le> t \<longleftrightarrow> DayFromYear y \<le> Day t"
  unfolding TimeFromYear_def Day_def msPerDay_def
  using le_div_iff_int [of 86400000 "DayFromYear y" t] by (simp add: mult.commute)

lemma YearFromTime_largest: "TimeFromYear y \<le> t \<longleftrightarrow> y \<le> YearFromTime t"
proof
  assume "TimeFromYear y \<le> t"
  then have "DayFromYear y \<le> Day t" by (simp add: TimeFromYear_le_iff)
  then have "DayFromYear y < DayFromYear (YearFromTime t + 1)"
    using YearFromTime_bounds [of t] by linarith
  then have "\<not> YearFromTime t + 1 \<le> y" using DayFromYear_mono [of "YearFromTime t + 1" y] by linarith
  then show "y \<le> YearFromTime t" by simp
next
  assume "y \<le> YearFromTime t"
  then have "DayFromYear y \<le> Day t"
    using DayFromYear_mono [of y "YearFromTime t"] YearFromTime_bounds [of t] by linarith
  then show "TimeFromYear y \<le> t" by (simp add: TimeFromYear_le_iff)
qed

lemma MonthFromTime_range: "0 \<le> MonthFromTime t \<and> MonthFromTime t \<le> 11"
  unfolding MonthFromTime_def Let_def by simp

lemma monthStart_DateFromTime:
  "monthStart (MonthFromTime t) (InLeapYear t) + DateFromTime t - 1 = DayWithinYear t"
  unfolding DateFromTime_def monthStart_def Let_def by simp

lemma MakeDay_of_parts:
  "MakeDay (YearFromTime t) (MonthFromTime t) (DateFromTime t) = Day t"
proof -
  have m: "MonthFromTime t div 12 = 0" "MonthFromTime t mod 12 = MonthFromTime t"
    using MonthFromTime_range [of t] by simp_all
  have "MakeDay (YearFromTime t) (MonthFromTime t) (DateFromTime t) =
        DayFromYear (YearFromTime t) + (monthStart (MonthFromTime t) (InLeapYear t) + DateFromTime t - 1)"
    unfolding MakeDay_def Let_def m InLeapYear_def by simp
  then show ?thesis unfolding monthStart_DateFromTime DayWithinYear_def by simp
qed


lemma div_succ:
  fixes n k :: int
  assumes "0 < k"
  shows "(n + 1) div k = n div k + (if (n + 1) mod k = 0 then 1 else 0)"
proof -
  have n: "n = k * (n div k) + n mod k" by simp
  have r: "0 \<le> n mod k" "n mod k < k" using assms by simp_all
  show ?thesis
  proof (cases "n mod k + 1 = k")
    case True
    then have e: "n + 1 = k * (n div k + 1)" using n by (metis add.assoc distrib_left mult.right_neutral)
    then have "(n + 1) div k = n div k + 1" using assms by (metis nonzero_mult_div_cancel_left less_irrefl)
    moreover have "(n + 1) mod k = 0" using e by (metis mod_mult_self1_is_0)
    ultimately show ?thesis by simp
  next
    case False
    then have lt: "n mod k + 1 < k" using r by linarith
    have e: "n + 1 = k * (n div k) + (n mod k + 1)" using n by linarith
    have "0 \<le> n mod k + 1" using r by linarith
    then have d: "(n + 1) div k = n div k" and m: "(n + 1) mod k = n mod k + 1"
      using lt assms e
       apply (metis add.commute div_mult_self2 div_pos_pos_trivial less_irrefl add.right_neutral)
      by (metis e lt \<open>0 \<le> n mod k + 1\<close> mod_mult_self4 mod_pos_pos_trivial)
    have "n mod k + 1 \<noteq> 0" using r by linarith
    then show ?thesis using d m by simp
  qed
qed

lemma mod_shift:
  "(y - 1968) mod 4 = y mod (4::int)" "(y - 1900) mod 100 = y mod (100::int)"
  "(y - 1600) mod 400 = y mod (400::int)"
proof -
  have "(y + 4 * (- 492)) mod 4 = y mod 4" by (rule mod_mult_self2)
  then show "(y - 1968) mod 4 = y mod 4" by simp
  have "(y + 100 * (- 19)) mod 100 = y mod 100" by (rule mod_mult_self2)
  then show "(y - 1900) mod 100 = y mod 100" by simp
  have "(y + 400 * (- 4)) mod 400 = y mod 400" by (rule mod_mult_self2)
  then show "(y - 1600) mod 400 = y mod 400" by simp
qed

lemma mod_4_100_400:
  fixes y :: int
  shows "y mod 100 = 0 \<Longrightarrow> y mod 4 = 0" "y mod 400 = 0 \<Longrightarrow> y mod 100 = 0"
  by presburger+

lemma DayFromYear_Suc: "DayFromYear (y + 1) = DayFromYear y + DaysInYear y"
proof -
  have a: "(y + 1 - 1969) div 4 = (y - 1969) div 4 + (if y mod 4 = 0 then 1 else 0)"
    using div_succ [of 4 "y - 1969"] mod_shift(1) [of y] by simp
  have b: "(y + 1 - 1901) div 100 = (y - 1901) div 100 + (if y mod 100 = 0 then 1 else 0)"
    using div_succ [of 100 "y - 1901"] mod_shift(2) [of y] by simp
  have c: "(y + 1 - 1601) div 400 = (y - 1601) div 400 + (if y mod 400 = 0 then 1 else 0)"
    using div_succ [of 400 "y - 1601"] mod_shift(3) [of y] by simp
  show ?thesis
    unfolding DayFromYear_def DaysInYear_def a b c
    using mod_4_100_400 [of y] by (simp split: if_splits)
qed

lemma monthStart_range:
  assumes "0 \<le> mn" "mn \<le> 11" "leap = 0 \<or> leap = 1"
  shows "0 \<le> monthStart mn leap" "monthStart mn leap < 365 + leap"
  using assms unfolding monthStart_def by auto

lemma Day_of_day_start: "Day (d * msPerDay) = d"
  unfolding Day_def msPerDay_def by simp

lemma YearFromTime_eqI:
  assumes "DayFromYear y \<le> Day t" "Day t < DayFromYear (y + 1)"
  shows "YearFromTime t = y"
proof -
  have "y \<le> YearFromTime t" using assms(1) YearFromTime_largest TimeFromYear_le_iff by blast
  moreover have "\<not> y + 1 \<le> YearFromTime t"
    using assms(2) YearFromTime_largest [of "y + 1" t] TimeFromYear_le_iff [of "y + 1" t] by linarith
  ultimately show ?thesis by linarith
qed

lemma MonthFromTime_monthStart:
  assumes "0 \<le> mn" "mn \<le> 11" "DayWithinYear t = monthStart mn (InLeapYear t)"
  shows "MonthFromTime t = mn" "DateFromTime t = 1"
proof -
  have l: "InLeapYear t = 0 \<or> InLeapYear t = 1" unfolding InLeapYear_def by simp
  have "mn = 0 \<or> mn = 1 \<or> mn = 2 \<or> mn = 3 \<or> mn = 4 \<or> mn = 5 \<or> mn = 6 \<or> mn = 7
    \<or> mn = 8 \<or> mn = 9 \<or> mn = 10 \<or> mn = 11" using assms(1,2) by presburger
  then have m: "MonthFromTime t = mn"
    using l unfolding MonthFromTime_def Let_def assms(3) monthStart_def
    by (elim disjE) simp_all
  show "MonthFromTime t = mn" by (rule m)
  have "monthStart mn (InLeapYear t) + DateFromTime t - 1 = DayWithinYear t"
    using monthStart_DateFromTime [of t] unfolding m .
  then show "DateFromTime t = 1" unfolding assms(3) by simp
qed

lemma MakeDay_first_of_month:
  fixes year month :: int
  defines "t \<equiv> MakeDate (MakeDay year month 1) 0"
  shows "YearFromTime t = year + month div 12 \<and> MonthFromTime t = month mod 12 \<and> DateFromTime t = 1"
proof -
  define ym where "ym = year + month div 12"
  define mn where "mn = month mod 12"
  define leap :: int where "leap = (if DaysInYear ym = 366 then 1 else 0)"
  have mn: "0 \<le> mn" "mn \<le> 11" unfolding mn_def by simp_all
  have lp: "leap = 0 \<or> leap = 1" unfolding leap_def by simp
  have diy: "DaysInYear ym = 365 + leap" unfolding leap_def DaysInYear_def by simp
  have d: "Day t = DayFromYear ym + monthStart mn leap"
    unfolding t_def MakeDate_def MakeDay_def Let_def ym_def mn_def leap_def
    using Day_of_day_start by simp
  have y: "YearFromTime t = ym"
    using monthStart_range [OF mn lp] d DayFromYear_Suc [of ym] diy
    by (intro YearFromTime_eqI) linarith+
  have il: "InLeapYear t = leap" unfolding InLeapYear_def y leap_def by simp
  have "DayWithinYear t = monthStart mn (InLeapYear t)" unfolding DayWithinYear_def y d il by simp
  from MonthFromTime_monthStart [OF mn this] y show ?thesis unfolding ym_def mn_def by simp
qed

lemma monthStart_leap_diff: "monthStart m 0 \<le> monthStart m 1 \<and> monthStart m 1 \<le> monthStart m 0 + 1"
  unfolding monthStart_def by simp

lemma today_at_day:
  "\<exists>D0. today_at h m now = D0 * msPerDay + (h * msPerHour + m * msPerMinute) \<and> Day now \<le> D0 \<and>
        (\<not> (0 \<le> YearFromTime now \<and> YearFromTime now \<le> 99) \<longrightarrow> D0 = Day now)"
proof (cases "0 \<le> YearFromTime now \<and> YearFromTime now \<le> 99")
  case False
  then have yr: "(if 0 \<le> YearFromTime now \<and> YearFromTime now \<le> 99 then 1900 + YearFromTime now
                  else YearFromTime now) = YearFromTime now"
    by simp
  have "today_at h m now = Day now * msPerDay + (h * msPerHour + m * msPerMinute)"
    unfolding today_at_def Date_UTC_def Let_def getUTCFullYear_def getUTCMonth_def getUTCDate_def
      MakeDate_def MakeTime_def yr MakeDay_of_parts
    by simp
  with False show ?thesis by blast
next
  case True
  define Y where "Y = YearFromTime now"
  define M where "M = MonthFromTime now"
  define leap' :: int where "leap' = (if DaysInYear (1900 + Y) = 366 then 1 else 0)"
  have m: "M div 12 = 0" "M mod 12 = M"
    unfolding M_def using MonthFromTime_range [of now] by simp_all
  have md: "MakeDay (1900 + Y) M (DateFromTime now) =
        DayFromYear (1900 + Y) + monthStart M leap' + DateFromTime now - 1"
    unfolding MakeDay_def Let_def m leap'_def by simp
  have dw: "monthStart M (InLeapYear now) + DateFromTime now - 1 = Day now - DayFromYear Y"
    unfolding M_def Y_def using monthStart_DateFromTime [of now] by (simp add: DayWithinYear_def)
  have ms: "monthStart M (InLeapYear now) \<le> monthStart M leap' + 1"
    using monthStart_leap_diff [of M] unfolding leap'_def InLeapYear_def by (simp split: if_splits)
  have "DayFromYear Y < DayFromYear (1900 + Y)" by (intro DayFromYear_strict_mono) simp
  with md dw ms have ge: "Day now \<le> MakeDay (1900 + Y) M (DateFromTime now)" by linarith
  have "today_at h m now =
        MakeDay (1900 + Y) M (DateFromTime now) * msPerDay + (h * msPerHour + m * msPerMinute)"
    using True
    unfolding today_at_def Date_UTC_def Let_def getUTCFullYear_def getUTCMonth_def getUTCDate_def
      MakeDate_def MakeTime_def Y_def M_def
    by (simp add: msPerSecond_def)
  with ge True show ?thesis by blast
qed

lemma time_fields:
  fixes D0 h m :: int
  assumes "0 \<le> h" "h < 24" "0 \<le> m" "m < 60"
  defines "T \<equiv> D0 * msPerDay + (h * msPerHour + m * msPerMinute)"
  shows "HourFromTime T = h" "MinFromTime T = m" "SecFromTime T = 0" "msFromTime T = 0"
proof -
  have eh: "T = 3600000 * (24 * D0 + h) + 60000 * m"
    unfolding T_def msPerDay_def msPerHour_def msPerMinute_def by simp
  have em: "T = 60000 * (1440 * D0 + 60 * h + m) + 0"
    unfolding T_def msPerDay_def msPerHour_def msPerMinute_def by simp
  have es: "T = 1000 * (60 * (1440 * D0 + 60 * h + m)) + 0"
    unfolding T_def msPerDay_def msPerHour_def msPerMinute_def by simp
  have "T div 3600000 = 24 * D0 + h"
    unfolding eh using assms by simp
  then show "HourFromTime T = h" unfolding HourFromTime_def msPerHour_def using assms by simp
  have "T div 60000 = 1440 * D0 + 60 * h + m" unfolding em by simp
  moreover have "(1440 * D0 + 60 * h + m) mod 60 = m"
  proof -
    have "1440 * D0 + 60 * h + m = m + 60 * (24 * D0 + h)" by simp
    then show ?thesis using assms by (simp only: mod_mult_self2) simp
  qed
  ultimately show "MinFromTime T = m" unfolding MinFromTime_def msPerMinute_def by simp
  have "T div 1000 = 60 * (1440 * D0 + 60 * h + m)" unfolding es by simp
  then show "SecFromTime T = 0" unfolding SecFromTime_def msPerSecond_def by simp
  show "msFromTime T = 0" unfolding msFromTime_def msPerSecond_def es by simp
qed

lemma Day_bounds: "Day t * msPerDay \<le> t \<and> t < Day t * msPerDay + msPerDay"
proof -
  have "t = Day t * msPerDay + t mod msPerDay" unfolding Day_def by simp
  moreover have "0 \<le> t mod msPerDay" "t mod msPerDay < msPerDay" unfolding msPerDay_def by simp_all
  ultimately show ?thesis by linarith
qed


lemma is_digit_not_colon: "is_digit c \<Longrightarrow> c \<noteq> CHR '':''"
  unfolding is_digit_def by auto

lemma digit_val_range: "is_digit c \<Longrightarrow> 0 \<le> digit_val c \<and> digit_val c \<le> 9"
  unfolding is_digit_def digit_val_def by auto

lemma Number_digits_two:
  "is_digit a \<Longrightarrow> is_digit b \<Longrightarrow> Number_digits [a, b] = Some (10 * digit_val a + digit_val b)"
  unfolding Number_digits_def by simp

lemma valid_hhmm_parts:
  assumes "valid_hhmm s"
  shows "map Number_digits (split_on CHR '':'' s) = [Some (hh_of s), Some (mm_of s)]"
    and "0 \<le> hh_of s" and "hh_of s < 24" and "0 \<le> mm_of s" and "mm_of s < 60"
proof -
  from assms have len: "length s = 5" unfolding valid_hhmm_def by simp
  then obtain a b x c d where s: "s = [a, b, x, c, d]"
    by (auto simp: length_Suc_conv eval_nat_numeral)
  from assms s have dg: "is_digit a" "is_digit b" "x = CHR '':''" "is_digit c" "is_digit d"
    unfolding valid_hhmm_def by simp_all
  have sp: "split_on CHR '':'' s = [[a, b], [c, d]]"
    unfolding s using dg is_digit_not_colon by simp
  show "map Number_digits (split_on CHR '':'' s) = [Some (hh_of s), Some (mm_of s)]"
    unfolding sp using dg by (simp add: Number_digits_two hh_of_def mm_of_def s)
  show "0 \<le> hh_of s" "0 \<le> mm_of s"
    unfolding hh_of_def mm_of_def s using dg digit_val_range by (simp_all add: add_nonneg_nonneg)
  show "hh_of s < 24" "mm_of s < 60" using assms unfolding valid_hhmm_def by simp_all
qed


section \<open>Properties of getNextRestartTime\<close>

lemma next_occurrence_general:
  assumes "valid_hhmm s"
  shows "\<exists>r. getNextRestartTime s now = Some r
             \<and> now < r
             \<and> HourFromTime r = hh_of s \<and> MinFromTime r = mm_of s \<and> SecFromTime r = 0
             \<and> r = (if today_at (hh_of s) (mm_of s) now \<le> now
                    then today_at (hh_of s) (mm_of s) now + 86400 * 1000
                    else today_at (hh_of s) (mm_of s) now)"
proof -
  note p = valid_hhmm_parts [OF assms]
  define T where "T = today_at (hh_of s) (mm_of s) now"
  obtain D0 where D0: "T = D0 * msPerDay + (hh_of s * msPerHour + mm_of s * msPerMinute)"
    and ge: "Day now \<le> D0"
    unfolding T_def using today_at_day [of "hh_of s" "mm_of s" now] by blast
  define r where "r = (if T \<le> now then T + 86400 * 1000 else T)"
  have res: "getNextRestartTime s now = Some r"
    unfolding getNextRestartTime_def p(1) r_def T_def Let_def by simp
  have T1: "T + 86400 * 1000 = (D0 + 1) * msPerDay + (hh_of s * msPerHour + mm_of s * msPerMinute)"
    unfolding D0 msPerDay_def by simp
  have fields: "HourFromTime r = hh_of s \<and> MinFromTime r = mm_of s \<and> SecFromTime r = 0"
  proof (cases "T \<le> now")
    case True
    then have "r = (D0 + 1) * msPerDay + (hh_of s * msPerHour + mm_of s * msPerMinute)"
      unfolding r_def using T1 by simp
    then show ?thesis using time_fields [OF p(2-5), of "D0 + 1"] by simp
  next
    case False
    then have "r = D0 * msPerDay + (hh_of s * msPerHour + mm_of s * msPerMinute)"
      unfolding r_def using D0 by simp
    then show ?thesis using time_fields [OF p(2-5), of D0] by simp
  qed
  have after: "now < r"
  proof (cases "T \<le> now")
    case True
    have "0 \<le> hh_of s * msPerHour + mm_of s * msPerMinute"
      using p(2,4) unfolding msPerHour_def msPerMinute_def by simp
    moreover have "Day now * msPerDay \<le> D0 * msPerDay"
      using ge unfolding msPerDay_def by simp
    ultimately have "now < T + msPerDay" using Day_bounds [of now] D0 by linarith
    then show ?thesis using True unfolding r_def msPerDay_def by simp
  next
    case False
    then show ?thesis unfolding r_def by simp
  qed
  show ?thesis
    using res after fields unfolding r_def T_def by blast
qed

lemma today_at_midnight_plus:
  assumes "\<not> (0 \<le> YearFromTime now \<and> YearFromTime now \<le> 99)"
  shows "today_at h m now = Day now * msPerDay + h * msPerHour + m * msPerMinute"
  using today_at_day [of h m now] assms by auto

text \<open>
  C1. For a valid zero-padded \<open>HH:MM\<close> string and any time value \<open>now\<close>,
  getNextRestartTime returns a time value strictly after \<open>now\<close> whose UTC hour and minute
  are those of the string and whose seconds are zero; it is the instant first computed for
  today when that is after \<open>now\<close>, and otherwise that instant plus 86400 seconds. The
  instant computed for today is the start of the UTC day of \<open>now\<close> plus the hours and
  minutes (outside the years 0 to 99, which \<open>Date.UTC\<close> reads as 1900 to 1999).
  With the string \<open>00:00\<close> at 2024-01-01T00:00:00Z the result is 2024-01-02T00:00:00Z.
\<close>

theorem getNextRestartTime_next_occurrence:
  assumes "valid_hhmm s"
  shows "(\<exists>r. getNextRestartTime s now = Some r
             \<and> now < r
             \<and> HourFromTime r = hh_of s \<and> MinFromTime r = mm_of s \<and> SecFromTime r = 0
             \<and> r = (if today_at (hh_of s) (mm_of s) now \<le> now
                    then today_at (hh_of s) (mm_of s) now + 86400 * 1000
                    else today_at (hh_of s) (mm_of s) now))
         \<and> (\<not> (0 \<le> YearFromTime now \<and> YearFromTime now \<le> 99) \<longrightarrow>
              today_at (hh_of s) (mm_of s) now =
                Day now * msPerDay + hh_of s * msPerHour + mm_of s * msPerMinute)
         \<and> toISOString 1704067200000 = ''2024-01-01T00:00:00.000Z''
         \<and> toISOString 1704153600000 = ''2024-01-02T00:00:00.000Z''
         \<and> getNextRestartTime ''00:00'' 1704067200000 = Some 1704153600000"
proof -
  have e1: "toISOString 1704067200000 = ''2024-01-01T00:00:00.000Z''" by code_simp
  have e2: "toISOString 1704153600000 = ''2024-01-02T00:00:00.000Z''" by code_simp
  have e3: "getNextRestartTime ''00:00'' 1704067200000 = Some 1704153600000" by code_simp
  have e4: "\<not> (0 \<le> YearFromTime now \<and> YearFromTime now \<le> 99) \<longrightarrow>
              today_at (hh_of s) (mm_of s) now =
                Day now * msPerDay + hh_of s * msPerHour + mm_of s * msPerMinute"
    using today_at_midnight_plus [of now "hh_of s" "mm_of s"] by simp
  from next_occurrence_general [OF assms, of now] e1 e2 e3 e4 show ?thesis by blast
qed

theorem getNextRestartTime_next_occurrence_witness:
  "valid_hhmm ''09:30'' \<and>
   \<not> (0 \<le> YearFromTime 1704101400000 \<and> YearFromTime 1704101400000 \<le> 99) \<and>
   today_at 9 30 1704101400000 = 1704101400000 \<and>
   getNextRestartTime ''09:30'' 1704101400000 = Some 1704187800000 \<and>
   HourFromTime 1704187800000 = 9 \<and> MinFromTime 1704187800000 = 30 \<and>
   SecFromTime 1704187800000 = 0"
proof -
  have v: "valid_hhmm ''09:30''" by code_simp
  have h: "hh_of ''09:30'' = 9" "mm_of ''09:30'' = 30" by code_simp+
  have y: "YearFromTime 1704101400000 = 2024" by code_simp
  have d: "Day 1704101400000 * msPerDay + 9 * msPerHour + 30 * msPerMinute = 1704101400000"
    by code_simp
  note t = getNextRestartTime_next_occurrence [OF v, of 1704101400000, unfolded h]
  from t y d have a: "today_at 9 30 1704101400000 = 1704101400000" by simp
  from t obtain r where r: "getNextRestartTime ''09:30'' 1704101400000 = Some r"
    "HourFromTime r = 9" "MinFromTime r = 30" "SecFromTime r = 0"
    "r = (if today_at 9 30 1704101400000 \<le> 1704101400000
          then today_at 9 30 1704101400000 + 86400 * 1000 else today_at 9 30 1704101400000)"
    by blast
  from r(5) have "r = 1704187800000" unfolding a by simp
  with r v y a show ?thesis by simp
qed

section \<open>Properties of the client's operations\<close>

lemma fold_setTimeout:
  "foldl (\<lambda>w' x. if P x then setTimeout (A x) (D x) w' else w') w xs =
   w\<lparr>effects := effects w @ map (\<lambda>x. SetTimeout (A x) (D x)) (filter P xs)\<rparr>"
  by (induction xs arbitrary: w) (simp_all add: setTimeout_def)

lemma frames_append [simp]: "frames (xs @ ys) = frames xs @ frames ys"
  by (induction xs rule: frames.induct) simp_all

lemma timers_append [simp]: "timers (xs @ ys) = timers xs @ timers ys"
  by (induction xs rule: timers.induct) simp_all

lemma calls_append [simp]: "calls (xs @ ys) = calls xs @ calls ys"
  by (induction xs rule: calls.induct) simp_all

lemma timers_map_SetTimeout [simp]:
  "timers (map (\<lambda>x. SetTimeout (A x) (D x)) xs) = map (\<lambda>x. (A x, D x)) xs"
  by (induction xs) simp_all

lemma sendCommand_not_open:
  "readyState w \<noteq> OPEN \<Longrightarrow>
   sendCommand cmd callback w =
     w\<lparr>effects := effects w @ [Log Error (''['' @ name w @ ''] WebSocket not open. Cannot send: '' @ cmd)]\<rparr>"
  by (simp add: sendCommand_def logger_def tag_def)

lemma sendCommand_open_plain:
  "readyState w = OPEN \<Longrightarrow>
   sendCommand cmd None w =
     w\<lparr>effects := effects w @
        [WsSend \<lparr>Identifier = - 1, Message = cmd, Name = ''NodeRcon''\<rparr>,
         Log Info (''['' @ name w @ ''] Sent command: '' @ cmd)]\<rparr>"
  by (simp add: sendCommand_def logger_def tag_def)

lemma sendCommand_open_callback:
  "readyState w = OPEN \<Longrightarrow>
   sendCommand cmd (Some cb) w =
     w\<lparr>lastIdentifier := lastIdentifier w + 1,
       callbacks := (callbacks w)(lastIdentifier w + 1 \<mapsto> cb),
       effects := effects w @
        [WsSend \<lparr>Identifier = lastIdentifier w + 1, Message = cmd, Name = ''NodeRcon''\<rparr>,
         Log Info (''['' @ name w @ ''] Sent command: '' @ cmd)]\<rparr>"
  by (simp add: sendCommand_def logger_def tag_def)

lemma sendCommand_plain_effects:
  "\<exists>es. sendCommand cmd None w = w\<lparr>effects := effects w @ es\<rparr> \<and> timers es = [] \<and> calls es = []
        \<and> frames es = (if readyState w = OPEN then [\<lparr>Identifier = - 1, Message = cmd, Name = ''NodeRcon''\<rparr>] else [])"
proof (cases "readyState w = OPEN")
  case True
  then show ?thesis using sendCommand_open_plain [OF True, of cmd] by force
next
  case False
  then show ?thesis using sendCommand_not_open [OF False, of cmd None] by force
qed

lemma intervals_positive: "L \<in> set intervals \<Longrightarrow> 0 < L"
  unfolding intervals_def by auto

lemma command_effects_upd [simp]:
  "command_effects (w\<lparr>effects := es\<rparr>) cmd = command_effects w cmd"
  by (simp add: command_effects_def)

lemma timers_command_effects [simp]: "timers (command_effects w cmd) = []"
  by (simp add: command_effects_def)

lemma calls_command_effects [simp]: "calls (command_effects w cmd) = []"
  by (simp add: command_effects_def)

lemma timers_webhook_effects [simp]: "timers (webhook_effects env n l) = []"
  by (simp add: webhook_effects_def split: option.splits sum.splits)

lemma sendCommand_plain: "sendCommand cmd None w = w\<lparr>effects := effects w @ command_effects w cmd\<rparr>"
  by (simp add: sendCommand_def logger_def tag_def command_effects_def)

lemma sendDiscordNotification_effects:
  "sendDiscordNotification env webhookUrl serverName restartType reconnectMsg w =
     w\<lparr>effects := effects w @
       (case parse_URL env webhookUrl of
          Inr (hostname, path) \<Rightarrow>
            [HttpsPost hostname path
               \<lparr>title = serverName @ '' - '' @ restartType, description = reconnectMsg, color = 16711680\<rparr>,
             Log Info (''['' @ serverName @ ''] Discord notification sent.'')]
        | Inl err \<Rightarrow>
            [Log Error (''['' @ serverName @ ''] Failed to send Discord notification: '' @ err)])\<rparr>"
  unfolding sendDiscordNotification_def Let_def logger_def
  by (simp split: sum.splits prod.splits)

lemma notify_effects:
  "(case globalDiscordWebhook env of
      Some webhook \<Rightarrow>
        sendDiscordNotification env webhook (name w) scheduleName ''Reconnect in 5 minutes'' w
    | None \<Rightarrow> w) = w\<lparr>effects := effects w @ webhook_effects env (name w) scheduleName\<rparr>"
  unfolding webhook_effects_def sendDiscordNotification_effects
  by (simp split: option.splits)

lemma run_Terminal:
  "run_task env (Terminal scheduleName) t w =
     w\<lparr>effects := effects w @ webhook_effects env (name w) scheduleName @
        command_effects w ''say [Notification] Restarting now...'' @
        command_effects w ''server.save'' @
        [SetTimeout DelayedRestart 2000, Log Info (''['' @ name w @ ''] Executed restart'')]\<rparr>"
  unfolding run_task.simps Let_def notify_effects sendAnnouncement_def saveServer_def sendCommand_plain
  by (simp add: setTimeout_def logger_def tag_def)

lemma run_DelayedRestart:
  "run_task env DelayedRestart t w = w\<lparr>effects := effects w @ command_effects w ''restart 0''\<rparr>"
  by (simp add: restartServer_def sendCommand_plain)


section \<open>Properties of scheduleRestart and its timers\<close>

lemma scheduleRestart_effects:
  "scheduleRestart eventTime scheduleName now w =
   w\<lparr>effects := effects w @
     (if eventTime - now \<le> 0 then [Log Info (tag w @ ''Event time already passed.'')]
      else Log Info (tag w @ ''Scheduling '' @ scheduleName @ '' at '' @ toISOString eventTime @
                     '' (in '' @ Number_toString \<lfloor>real_of_int (eventTime - now) / 1000\<rfloor> @ '' seconds)'')
           # map (\<lambda>L. SetTimeout (Announce eventTime scheduleName L) (eventTime - now - L * 1000))
               (filter (\<lambda>L. real_of_int (eventTime - now) / 1000 > real_of_int L) intervals)
           @ [SetTimeout (Terminal scheduleName) (eventTime - now)])\<rparr>"
  unfolding scheduleRestart_def Let_def fold_setTimeout
  by (simp add: logger_def setTimeout_def)

lemma scheduleRestart_timers:
  "timers (done_by (scheduleRestart eventTime scheduleName now) w) =
     (if eventTime - now \<le> 0 then []
      else map (\<lambda>L. (Announce eventTime scheduleName L, eventTime - now - L * 1000))
               (filter (\<lambda>L. real_of_int (eventTime - now) / 1000 > real_of_int L) intervals)
           @ [(Terminal scheduleName, eventTime - now)])"
  unfolding done_by_def scheduleRestart_effects [of eventTime scheduleName now w]
  by simp

lemma run_Announce:
  "run_task env (Announce eventTime scheduleName L) t w =
     (if real_of_int (eventTime - t) / 1000 \<ge> real_of_int L - 1 then
        logger Info (''['' @ name w @ ''] Announced: '' @ scheduleName @ '' in '' @ formatTime (real_of_int L))
          (sendAnnouncement (scheduleName @ '' in '' @ formatTime (real_of_int L)) w)
      else w)"
proof -
  have "name (sendAnnouncement m w) = name w" for m
    unfolding sendAnnouncement_def Let_def sendCommand_def logger_def by simp
  then show ?thesis by (simp add: Let_def tag_def)
qed

lemma run_Announce_done:
  "done_by (run_task env (Announce eventTime scheduleName L) t) w =
     (if real_of_int (eventTime - t) / 1000 \<ge> real_of_int L - 1 then
        done_by (sendAnnouncement (scheduleName @ '' in '' @ formatTime (real_of_int L))) w @
        [Log Info (''['' @ name w @ ''] Announced: '' @ scheduleName @ '' in '' @ formatTime (real_of_int L))]
      else [])"
proof -
  obtain es where es: "sendAnnouncement (scheduleName @ '' in '' @ formatTime (real_of_int L)) w =
      w\<lparr>effects := effects w @ es\<rparr>"
    unfolding sendAnnouncement_def Let_def using sendCommand_plain_effects by blast
  show ?thesis unfolding done_by_def run_Announce es by (simp add: logger_def)
qed


text \<open>
  C5. When the event time is not after the clock at arming, scheduleRestart logs the one
  line \<open>Event time already passed.\<close> and does nothing else: no timer is set, no frame
  is sent and the client is otherwise unchanged.
\<close>

theorem scheduleRestart_event_passed:
  assumes "eventTime - now \<le> 0"
  shows "done_by (scheduleRestart eventTime scheduleName now) w =
           [Log Info (''['' @ name w @ ''] Event time already passed.'')]
         \<and> timers (done_by (scheduleRestart eventTime scheduleName now) w) = []
         \<and> frames (done_by (scheduleRestart eventTime scheduleName now) w) = []
         \<and> (scheduleRestart eventTime scheduleName now w)\<lparr>effects := effects w\<rparr> = w"
proof -
  have e: "scheduleRestart eventTime scheduleName now w =
           w\<lparr>effects := effects w @ [Log Info (''['' @ name w @ ''] Event time already passed.'')]\<rparr>"
    using assms unfolding scheduleRestart_effects [of eventTime scheduleName now w] tag_def by simp
  have d: "done_by (scheduleRestart eventTime scheduleName now) w =
           [Log Info (''['' @ name w @ ''] Event time already passed.'')]"
    unfolding done_by_def e by simp
  show ?thesis unfolding d by (simp add: e)
qed

theorem scheduleRestart_event_passed_witness:
  "(1000 :: int) - 2000 \<le> 0 \<and>
   done_by (scheduleRestart 1000 ''Daily restart'' 2000) example_client =
     [Log Info ''[Main] Event time already passed.'']"
  using scheduleRestart_event_passed [of 1000 2000 "''Daily restart''" example_client]
  by (simp add: example_client_def example_config_def new_RconClient_def connect_def logger_def)

text \<open>
  C2. For a lead time \<open>L\<close> of the cascade, arming sets a timer for the announcement of
  \<open>L\<close> exactly when the milliseconds until the event, divided by 1000, exceed \<open>L\<close>, and
  its delay is those milliseconds less \<open>L * 1000\<close>. When the timer fires, the announcement
  \<open>{label} in {formatTime L}\<close> is given to the client exactly when the remaining seconds
  are at least \<open>L - 1\<close> (on an open socket it is one \<open>say\<close> frame); otherwise nothing
  happens, and in no case is a timer set again. Arming 40 seconds ahead sets the
  announcements of 30, 10 and 5 seconds only.
\<close>

theorem cascade_announcements:
  assumes "L \<in> set intervals"
  shows
    "((Announce eventTime scheduleName L, d) \<in> set (timers (done_by (scheduleRestart eventTime scheduleName now) w)))
       = (real_of_int (eventTime - now) / 1000 > real_of_int L \<and> d = (eventTime - now) - L * 1000)
     \<and> run_task env (Announce eventTime scheduleName L) t w =
         (if real_of_int (eventTime - t) / 1000 \<ge> real_of_int L - 1 then
            logger Info (''['' @ name w @ ''] Announced: '' @ scheduleName @ '' in '' @ formatTime (real_of_int L))
              (sendAnnouncement (scheduleName @ '' in '' @ formatTime (real_of_int L)) w)
          else w)
     \<and> frames (done_by (run_task env (Announce eventTime scheduleName L) t) w) =
         (if real_of_int (eventTime - t) / 1000 \<ge> real_of_int L - 1 \<and> readyState w = OPEN then
            [\<lparr>Identifier = - 1,
              Message = ''say [Notification] '' @ scheduleName @ '' in '' @ formatTime (real_of_int L),
              Name = ''NodeRcon''\<rparr>]
          else [])
     \<and> timers (done_by (run_task env (Announce eventTime scheduleName L) t) w) = []
     \<and> timers (done_by (scheduleRestart (now + 40 * 1000) scheduleName now) w) =
         [(Announce (now + 40 * 1000) scheduleName 30, 10000),
          (Announce (now + 40 * 1000) scheduleName 10, 30000),
          (Announce (now + 40 * 1000) scheduleName 5, 35000),
          (Terminal scheduleName, 40000)]"
proof -
  have pos: "0 < L" using assms by (rule intervals_positive)
  have a: "((Announce eventTime scheduleName L, d) \<in> set (timers (done_by (scheduleRestart eventTime scheduleName now) w)))
       = (real_of_int (eventTime - now) / 1000 > real_of_int L \<and> d = (eventTime - now) - L * 1000)"
  proof (cases "eventTime - now \<le> 0")
    case True
    then have "\<not> real_of_int (eventTime - now) / 1000 > real_of_int L" using pos by simp
    then show ?thesis using True unfolding scheduleRestart_timers by simp
  next
    case False
    then show ?thesis using assms unfolding scheduleRestart_timers by auto
  qed
  obtain es where es: "sendAnnouncement (scheduleName @ '' in '' @ formatTime (real_of_int L)) w =
      w\<lparr>effects := effects w @ es\<rparr>" and tm: "timers es = []"
    and fr: "frames es = (if readyState w = OPEN then
       [\<lparr>Identifier = - 1, Message = ''say [Notification] '' @ scheduleName @ '' in '' @ formatTime (real_of_int L), Name = ''NodeRcon''\<rparr>] else [])"
    unfolding sendAnnouncement_def Let_def
    using sendCommand_plain_effects [of "''say '' @ ''[Notification] '' @ scheduleName @ '' in '' @ formatTime (real_of_int L)" w]
    by auto
  have d: "done_by (sendAnnouncement (scheduleName @ '' in '' @ formatTime (real_of_int L))) w = es"
    unfolding done_by_def es by simp
  have c: "frames (done_by (run_task env (Announce eventTime scheduleName L) t) w) =
         (if real_of_int (eventTime - t) / 1000 \<ge> real_of_int L - 1 \<and> readyState w = OPEN then
            [\<lparr>Identifier = - 1,
              Message = ''say [Notification] '' @ scheduleName @ '' in '' @ formatTime (real_of_int L),
              Name = ''NodeRcon''\<rparr>]
          else [])"
    unfolding run_Announce_done d using fr by simp
  have e: "timers (done_by (run_task env (Announce eventTime scheduleName L) t) w) = []"
    unfolding run_Announce_done d using tm by simp
  have f: "timers (done_by (scheduleRestart (now + 40 * 1000) scheduleName now) w) =
         [(Announce (now + 40 * 1000) scheduleName 30, 10000),
          (Announce (now + 40 * 1000) scheduleName 10, 30000),
          (Announce (now + 40 * 1000) scheduleName 5, 35000),
          (Terminal scheduleName, 40000)]"
    unfolding scheduleRestart_timers intervals_def by simp
  from a run_Announce [of env eventTime scheduleName L t w] c e f show ?thesis by blast
qed


lemma formatTime_30: "formatTime 30 = ''30 seconds''"
  using formatTime_of_int [of 30]
  by (simp add: Number_toString_def nat_digits.simps digit_char_def)

theorem cascade_announcements_witness:
  "30 \<in> set intervals \<and>
   (Announce 100000 ''Daily restart'' 30, 10000) \<in>
     set (timers (done_by (scheduleRestart 100000 ''Daily restart'' 60000) example_client)) \<and>
   frames (done_by (run_task example_environment (Announce 100000 ''Daily restart'' 30) 70500)
             (on_open example_client)) =
     [\<lparr>Identifier = - 1, Message = ''say [Notification] Daily restart in 30 seconds'',
       Name = ''NodeRcon''\<rparr>] \<and>
   frames (done_by (run_task example_environment (Announce 100000 ''Daily restart'' 30) 71500)
             (on_open example_client)) = []"
proof -
  have i: "30 \<in> set intervals" by (simp add: intervals_def)
  have o: "readyState (on_open example_client) = OPEN" by (simp add: on_open_def logger_def)
  from cascade_announcements [OF i, of 100000 "''Daily restart''" 10000 60000 example_client
      example_environment 70500]
  have a: "(Announce 100000 ''Daily restart'' 30, 10000) \<in>
     set (timers (done_by (scheduleRestart 100000 ''Daily restart'' 60000) example_client))"
    by simp
  from cascade_announcements [OF i, of 100000 "''Daily restart''" 10000 60000 "on_open example_client"
      example_environment 70500] o
  have b: "frames (done_by (run_task example_environment (Announce 100000 ''Daily restart'' 30) 70500)
             (on_open example_client)) =
     [\<lparr>Identifier = - 1, Message = ''say [Notification] Daily restart in 30 seconds'',
       Name = ''NodeRcon''\<rparr>]"
    by (simp add: formatTime_30)
  from cascade_announcements [OF i, of 100000 "''Daily restart''" 10000 60000 "on_open example_client"
      example_environment 71500] o
  have c: "frames (done_by (run_task example_environment (Announce 100000 ''Daily restart'' 30) 71500)
             (on_open example_client)) = []"
    by simp
  from i a b c show ?thesis by simp
qed

text \<open>
  C3. When the event time is after the clock at arming, exactly one timer is set for the
  restart sequence, with the milliseconds until the event as its delay. When it fires it
  does, in this order and whatever the state of the socket: the webhook call, if a
  webhook is configured (an embed titled \<open>{serverName} - {label}\<close> with the description
  \<open>Reconnect in 5 minutes\<close> when the URL parses, a logged failure otherwise); the
  announcement \<open>Restarting now...\<close>; the command \<open>server.save\<close>; a timer of 2000
  milliseconds, whose function sends \<open>restart 0\<close>; and the log line
  \<open>Executed restart\<close>. Each of the three commands is handed to the client, which sends
  its frame on an open socket and logs an error on any other.
\<close>

theorem restart_sequence:
  assumes "0 < eventTime - now"
  shows
    "filter (\<lambda>td. is_Terminal (fst td)) (timers (done_by (scheduleRestart eventTime scheduleName now) w))
       = [(Terminal scheduleName, eventTime - now)]
     \<and> done_by (run_task env (Terminal scheduleName) t) w =
          (case globalDiscordWebhook env of
             None \<Rightarrow> []
           | Some webhook \<Rightarrow>
               (case parse_URL env webhook of
                  Inr (hostname, path) \<Rightarrow>
                    [HttpsPost hostname path
                       \<lparr>title = name w @ '' - '' @ scheduleName, description = ''Reconnect in 5 minutes'',
                        color = 16711680\<rparr>,
                     Log Info (''['' @ name w @ ''] Discord notification sent.'')]
                | Inl err \<Rightarrow>
                    [Log Error (''['' @ name w @ ''] Failed to send Discord notification: '' @ err)])) @
          (if readyState w = OPEN then
             [WsSend \<lparr>Identifier = - 1, Message = ''say [Notification] Restarting now...'', Name = ''NodeRcon''\<rparr>,
              Log Info (''['' @ name w @ ''] Sent command: say [Notification] Restarting now...'')]
           else
             [Log Error (''['' @ name w @ ''] WebSocket not open. Cannot send: say [Notification] Restarting now...'')]) @
          (if readyState w = OPEN then
             [WsSend \<lparr>Identifier = - 1, Message = ''server.save'', Name = ''NodeRcon''\<rparr>,
              Log Info (''['' @ name w @ ''] Sent command: server.save'')]
           else
             [Log Error (''['' @ name w @ ''] WebSocket not open. Cannot send: server.save'')]) @
          [SetTimeout DelayedRestart 2000,
           Log Info (''['' @ name w @ ''] Executed restart'')]
     \<and> (run_task env (Terminal scheduleName) t w)\<lparr>effects := effects w\<rparr> = w
     \<and> timers (done_by (run_task env (Terminal scheduleName) t) w) = [(DelayedRestart, 2000)]
     \<and> done_by (run_task env DelayedRestart t') w =
          (if readyState w = OPEN then
             [WsSend \<lparr>Identifier = - 1, Message = ''restart 0'', Name = ''NodeRcon''\<rparr>,
              Log Info (''['' @ name w @ ''] Sent command: restart 0'')]
           else
             [Log Error (''['' @ name w @ ''] WebSocket not open. Cannot send: restart 0'')])
     \<and> (run_task env DelayedRestart t' w)\<lparr>effects := effects w\<rparr> = w"
proof -
  have a: "filter (\<lambda>td. is_Terminal (fst td)) (timers (done_by (scheduleRestart eventTime scheduleName now) w))
       = [(Terminal scheduleName, eventTime - now)]"
    using assms unfolding scheduleRestart_timers by (simp add: filter_map comp_def)
  have b: "done_by (run_task env (Terminal scheduleName) t) w =
            webhook_effects env (name w) scheduleName @
            command_effects w ''say [Notification] Restarting now...'' @
            command_effects w ''server.save'' @
            [SetTimeout DelayedRestart 2000, Log Info (''['' @ name w @ ''] Executed restart'')]"
    unfolding done_by_def run_Terminal by simp
  have c: "done_by (run_task env DelayedRestart t') w = command_effects w ''restart 0''"
    unfolding done_by_def run_DelayedRestart by simp
  have d: "timers (done_by (run_task env (Terminal scheduleName) t) w) = [(DelayedRestart, 2000)]"
    unfolding b by simp
  have e: "(run_task env (Terminal scheduleName) t w)\<lparr>effects := effects w\<rparr> = w"
    unfolding run_Terminal by simp
  have f: "(run_task env DelayedRestart t' w)\<lparr>effects := effects w\<rparr> = w"
    unfolding run_DelayedRestart by simp
  from a b c d e f show ?thesis
    unfolding webhook_effects_def command_effects_def by simp
qed

theorem restart_sequence_witness:
  "(0 :: int) < 100000 - 60000 \<and>
   filter (\<lambda>td. is_Terminal (fst td))
     (timers (done_by (scheduleRestart 100000 ''Daily restart'' 60000) (on_open example_client)))
     = [(Terminal ''Daily restart'', 40000)] \<and>
   done_by (run_task example_environment (Terminal ''Daily restart'') 100000) (on_open example_client) =
     [HttpsPost ''discord.com'' ''/api/webhooks/1/abc''
        \<lparr>title = ''Main - Daily restart'', description = ''Reconnect in 5 minutes'', color = 16711680\<rparr>,
      Log Info ''[Main] Discord notification sent.'',
      WsSend \<lparr>Identifier = - 1, Message = ''say [Notification] Restarting now...'', Name = ''NodeRcon''\<rparr>,
      Log Info ''[Main] Sent command: say [Notification] Restarting now...'',
      WsSend \<lparr>Identifier = - 1, Message = ''server.save'', Name = ''NodeRcon''\<rparr>,
      Log Info ''[Main] Sent command: server.save'',
      SetTimeout DelayedRestart 2000,
      Log Info ''[Main] Executed restart''] \<and>
   done_by (run_task example_environment DelayedRestart 102000) (on_open example_client) =
     [WsSend \<lparr>Identifier = - 1, Message = ''restart 0'', Name = ''NodeRcon''\<rparr>,
      Log Info ''[Main] Sent command: restart 0''] \<and>
   done_by (run_task example_environment (Terminal ''Daily restart'') 100000) example_client =
     [HttpsPost ''discord.com'' ''/api/webhooks/1/abc''
        \<lparr>title = ''Main - Daily restart'', description = ''Reconnect in 5 minutes'', color = 16711680\<rparr>,
      Log Info ''[Main] Discord notification sent.'',
      Log Error ''[Main] WebSocket not open. Cannot send: say [Notification] Restarting now...'',
      Log Error ''[Main] WebSocket not open. Cannot send: server.save'',
      SetTimeout DelayedRestart 2000,
      Log Info ''[Main] Executed restart''] \<and>
   done_by (run_task example_environment DelayedRestart 102000) example_client =
     [Log Error ''[Main] WebSocket not open. Cannot send: restart 0'']"
proof -
  have o: "readyState (on_open example_client) = OPEN" "name (on_open example_client) = ''Main''"
    "readyState example_client = CONNECTING" "name example_client = ''Main''"
    by (simp_all add: on_open_def logger_def example_client_def example_config_def new_RconClient_def connect_def)
  have g: "globalDiscordWebhook example_environment = Some ''https://discord.com/api/webhooks/1/abc''"
    by (simp add: globalDiscordWebhook_def example_environment_def)
  have p: "parse_URL example_environment ''https://discord.com/api/webhooks/1/abc'' =
           Inr (''discord.com'', ''/api/webhooks/1/abc'')"
    by (simp add: example_environment_def)
  note t1 = restart_sequence [where eventTime = 100000 and now = 60000 and scheduleName = "''Daily restart''"
      and w = "on_open example_client" and env = example_environment and t = 100000 and t' = 102000]
  note t2 = restart_sequence [where eventTime = 100000 and now = 60000 and scheduleName = "''Daily restart''"
      and w = example_client and env = example_environment and t = 100000 and t' = 102000]
  from t1 o have a: "filter (\<lambda>td. is_Terminal (fst td))
     (timers (done_by (scheduleRestart 100000 ''Daily restart'' 60000) (on_open example_client)))
     = [(Terminal ''Daily restart'', 40000)]" by simp
  from t1 o have b: "done_by (run_task example_environment (Terminal ''Daily restart'') 100000) (on_open example_client) =
     [HttpsPost ''discord.com'' ''/api/webhooks/1/abc''
        \<lparr>title = ''Main - Daily restart'', description = ''Reconnect in 5 minutes'', color = 16711680\<rparr>,
      Log Info ''[Main] Discord notification sent.'',
      WsSend \<lparr>Identifier = - 1, Message = ''say [Notification] Restarting now...'', Name = ''NodeRcon''\<rparr>,
      Log Info ''[Main] Sent command: say [Notification] Restarting now...'',
      WsSend \<lparr>Identifier = - 1, Message = ''server.save'', Name = ''NodeRcon''\<rparr>,
      Log Info ''[Main] Sent command: server.save'',
      SetTimeout DelayedRestart 2000,
      Log Info ''[Main] Executed restart'']" by (simp add: g p)
  from t1 o have c: "done_by (run_task example_environment DelayedRestart 102000) (on_open example_client) =
     [WsSend \<lparr>Identifier = - 1, Message = ''restart 0'', Name = ''NodeRcon''\<rparr>,
      Log Info ''[Main] Sent command: restart 0'']" by simp
  from t2 o have d: "done_by (run_task example_environment (Terminal ''Daily restart'') 100000) example_client =
     [HttpsPost ''discord.com'' ''/api/webhooks/1/abc''
        \<lparr>title = ''Main - Daily restart'', description = ''Reconnect in 5 minutes'', color = 16711680\<rparr>,
      Log Info ''[Main] Discord notification sent.'',
      Log Error ''[Main] WebSocket not open. Cannot send: say [Notification] Restarting now...'',
      Log Error ''[Main] WebSocket not open. Cannot send: server.save'',
      SetTimeout DelayedRestart 2000,
      Log Info ''[Main] Executed restart'']" by (simp add: g p)
  from t2 o have e: "done_by (run_task example_environment DelayedRestart 102000) example_client =
     [Log Error ''[Main] WebSocket not open. Cannot send: restart 0'']" by simp
  from a b c d e show ?thesis by simp
qed

section \<open>What holds throughout a client's life\<close>

lemma issued_ids_append [simp]: "issued_ids (xs @ ys) = issued_ids xs @ issued_ids ys"
  by (simp add: issued_ids_def)

lemma issued_ids_command_effects [simp]: "issued_ids (command_effects w cmd) = []"
  by (simp add: issued_ids_def command_effects_def)

lemma issued_ids_webhook_effects [simp]: "issued_ids (webhook_effects env n l) = []"
  by (simp add: issued_ids_def webhook_effects_def split: option.splits sum.splits)

lemma issued_ids_simps [simp]:
  "issued_ids [] = []"
  "issued_ids (Log lv line # es) = issued_ids es"
  "issued_ids (Invoke cb m # es) = issued_ids es"
  "issued_ids (SetTimeout t d # es) = issued_ids es"
  "issued_ids (HttpsPost h p e # es) = issued_ids es"
  "issued_ids (WsSend pk # es) = (if Identifier pk \<noteq> - 1 then Identifier pk # issued_ids es else issued_ids es)"
  by (simp_all add: issued_ids_def)

lemma issued_ids_map_SetTimeout [simp]:
  "issued_ids (map (\<lambda>x. SetTimeout (A x) (D x)) xs) = []"
  by (induction xs) simp_all

lemma calls_map_SetTimeout [simp]:
  "calls (map (\<lambda>x. SetTimeout (A x) (D x)) xs) = []"
  by (induction xs) simp_all

lemma calls_webhook_effects [simp]: "calls (webhook_effects env n l) = []"
  by (simp add: webhook_effects_def split: option.splits sum.splits)

lemma quiet_inv: "quiet w w' \<Longrightarrow> client_inv w \<Longrightarrow> client_inv w'"
  unfolding quiet_def client_inv_def by simp

lemma quiet_sendCommand_plain: "quiet w (sendCommand cmd None w)"
  unfolding quiet_def sendCommand_plain by simp

lemma quiet_sendCommand_not_open: "readyState w \<noteq> OPEN \<Longrightarrow> quiet w (sendCommand cmd callback w)"
  unfolding quiet_def by (simp add: sendCommand_not_open)

lemma quiet_scheduleRestart: "quiet w (scheduleRestart eventTime scheduleName now w)"
  unfolding quiet_def scheduleRestart_effects [of eventTime scheduleName now w] by simp

lemma quiet_run_task: "quiet w (run_task env t now w)"
proof (cases t)
  case (Announce eventTime scheduleName L)
  show ?thesis
    unfolding Announce run_Announce quiet_def sendAnnouncement_def Let_def sendCommand_plain
    by (simp add: logger_def)
next
  case (Terminal scheduleName)
  show ?thesis unfolding Terminal run_Terminal quiet_def by simp
next
  case DelayedRestart
  show ?thesis unfolding DelayedRestart run_DelayedRestart quiet_def by simp
qed

lemma quiet_socket:
  "quiet w (on_open w)" "quiet w (on_close w)" "quiet w (on_error err w)"
  unfolding quiet_def on_open_def on_close_def on_error_def logger_def by simp_all

lemma inv_new: "client_inv (new_RconClient cfg)"
  unfolding client_inv_def new_RconClient_def connect_def logger_def by simp

lemma inv_sendCommand: "client_inv w \<Longrightarrow> client_inv (sendCommand cmd callback w)"
proof (cases "readyState w = OPEN")
  case False
  assume "client_inv w"
  then show ?thesis using quiet_inv [OF quiet_sendCommand_not_open [OF False]] by blast
next
  case True
  assume inv: "client_inv w"
  show ?thesis
  proof (cases callback)
    case None
    then show ?thesis using quiet_inv [OF quiet_sendCommand_plain] inv by blast
  next
    case (Some cb)
    have "sorted_wrt (<) (issued_ids (effects w) @ [lastIdentifier w + 1])"
      using inv unfolding client_inv_def by (fastforce simp: sorted_wrt_append)
    then show ?thesis
      using inv unfolding client_inv_def Some sendCommand_open_callback [OF True]
      by (auto split: if_splits)
  qed
qed

lemma on_message_cases:
  "on_message data pr w = (Returned, w) \<or> on_message data pr w = (Thrown TypeError, w) \<or>
   on_message data pr w = (Returned, logger Error (tag w @ ''Error parsing message: '' @ data) w) \<or>
   (\<exists>i body cb. pr = Some (JValue (Some i) body) \<and> 1000 < i \<and> callbacks w i = Some cb \<and>
      on_message data pr w =
        (Returned, w\<lparr>effects := effects w @ [Invoke cb (JValue (Some i) body)],
                     callbacks := (callbacks w)(i := None)\<rparr>))"
  unfolding on_message_def by (auto split: option.splits parsed.splits)

lemma inv_on_message: "client_inv w \<Longrightarrow> on_message data pr w = (out, w') \<Longrightarrow> client_inv w'"
  using on_message_cases [of data pr w]
  by (auto simp: client_inv_def logger_def split: if_splits)

lemma inv_step: "client_inv w \<Longrightarrow> step env e w = (out, w') \<Longrightarrow> client_inv w'"
proof (cases e)
  case (Send cmd callback)
  assume "client_inv w" "step env e w = (out, w')"
  then show ?thesis using inv_sendCommand [of w cmd callback] Send by auto
next
  case (Frame data pr)
  assume "client_inv w" "step env e w = (out, w')"
  then show ?thesis using inv_on_message [of w data pr out w'] Frame by auto
next
  case SocketOpen
  assume "client_inv w" "step env e w = (out, w')"
  then show ?thesis using quiet_inv [OF quiet_socket(1)] SocketOpen by auto
next
  case SocketClose
  assume "client_inv w" "step env e w = (out, w')"
  then show ?thesis using quiet_inv [OF quiet_socket(2)] SocketClose by auto
next
  case (SocketError err)
  assume "client_inv w" "step env e w = (out, w')"
  then show ?thesis using quiet_inv [OF quiet_socket(3)] SocketError by auto
next
  case (Arm eventTime scheduleName now)
  assume "client_inv w" "step env e w = (out, w')"
  then show ?thesis using quiet_inv [OF quiet_scheduleRestart] Arm by auto
next
  case (Fire t now)
  assume "client_inv w" "step env e w = (out, w')"
  then show ?thesis using quiet_inv [OF quiet_run_task] Fire by auto
qed

lemma inv_run: "client_inv w \<Longrightarrow> run env es w = (out, w') \<Longrightarrow> client_inv w'"
proof (induction es arbitrary: w)
  case Nil
  then show ?case by simp
next
  case (Cons e es)
  obtain o1 w1 where s: "step env e w = (o1, w1)" by (cases "step env e w")
  have i1: "client_inv w1" using inv_step [OF Cons.prems(1) s] .
  show ?case
  proof (cases o1)
    case Returned
    then have "run env es w1 = (out, w')" using Cons.prems(2) s by simp
    then show ?thesis using Cons.IH [OF i1] by blast
  next
    case (Thrown x)
    then have "w' = w1" using Cons.prems(2) s by simp
    then show ?thesis using i1 by simp
  qed
qed

lemma inv_history: "run env es (new_RconClient cfg) = (out, w) \<Longrightarrow> client_inv w"
  using inv_run [OF inv_new] by blast


text \<open>An identifier that the counter has passed and that has no pending callback stays so.\<close>

lemma spent_quiet:
  "quiet w w' \<Longrightarrow> callbacks w i = None \<and> i \<le> lastIdentifier w \<Longrightarrow>
   callbacks w' i = None \<and> i \<le> lastIdentifier w'"
  unfolding quiet_def by simp

lemma spent_sendCommand:
  assumes "callbacks w i = None \<and> i \<le> lastIdentifier w"
  shows "callbacks (sendCommand cmd callback w) i = None \<and> i \<le> lastIdentifier (sendCommand cmd callback w)"
proof (cases "readyState w = OPEN")
  case False
  show ?thesis using spent_quiet [OF quiet_sendCommand_not_open [OF False] assms] .
next
  case True
  show ?thesis
  proof (cases callback)
    case None
    show ?thesis unfolding None using spent_quiet [OF quiet_sendCommand_plain assms] .
  next
    case (Some cb)
    show ?thesis unfolding Some sendCommand_open_callback [OF True] using assms by simp
  qed
qed

lemma spent_on_message:
  assumes "callbacks w i = None \<and> i \<le> lastIdentifier w" "on_message data pr w = (out, w')"
  shows "callbacks w' i = None \<and> i \<le> lastIdentifier w'"
  using on_message_cases [of data pr w] assms by (auto simp: logger_def)

lemma spent_step:
  assumes "callbacks w i = None \<and> i \<le> lastIdentifier w" "step env e w = (out, w')"
  shows "callbacks w' i = None \<and> i \<le> lastIdentifier w'"
proof (cases e)
  case (Send cmd callback)
  then show ?thesis using spent_sendCommand [OF assms(1), of cmd callback] assms(2) by auto
next
  case (Frame data pr)
  then show ?thesis using spent_on_message [OF assms(1), of data pr out w'] assms(2) by auto
next
  case SocketOpen
  then show ?thesis using spent_quiet [OF quiet_socket(1) assms(1)] assms(2) by auto
next
  case SocketClose
  then show ?thesis using spent_quiet [OF quiet_socket(2) assms(1)] assms(2) by auto
next
  case (SocketError err)
  then show ?thesis using spent_quiet [OF quiet_socket(3) assms(1)] assms(2) by auto
next
  case (Arm eventTime scheduleName now)
  then show ?thesis using spent_quiet [OF quiet_scheduleRestart assms(1)] assms(2) by auto
next
  case (Fire t now)
  then show ?thesis using spent_quiet [OF quiet_run_task assms(1)] assms(2) by auto
qed

lemma spent_run:
  "callbacks w i = None \<and> i \<le> lastIdentifier w \<Longrightarrow> run env es w = (out, w') \<Longrightarrow>
   callbacks w' i = None \<and> i \<le> lastIdentifier w'"
proof (induction es arbitrary: w)
  case Nil
  then show ?case by simp
next
  case (Cons e es)
  obtain o1 w1 where s: "step env e w = (o1, w1)" by (cases "step env e w")
  have i1: "callbacks w1 i = None \<and> i \<le> lastIdentifier w1" using spent_step [OF Cons.prems(1) s] .
  show ?case
  proof (cases o1)
    case Returned
    then have "run env es w1 = (out, w')" using Cons.prems(2) s by simp
    then show ?thesis using Cons.IH [OF i1] by blast
  next
    case (Thrown x)
    then have "w' = w1" using Cons.prems(2) s by simp
    then show ?thesis using i1 by simp
  qed
qed

lemma on_message_no_callback:
  "callbacks w i = None \<Longrightarrow> on_message data (Some (JValue (Some i) body)) w = (Returned, w)"
  unfolding on_message_def by simp

lemma on_message_deliver:
  "callbacks w i = Some cb \<Longrightarrow> 1000 < i \<Longrightarrow>
   on_message data (Some (JValue (Some i) body)) w =
     (Returned, w\<lparr>effects := effects w @ [Invoke cb (JValue (Some i) body)],
                  callbacks := (callbacks w)(i := None)\<rparr>)"
  unfolding on_message_def by simp

section \<open>Properties of sendCommand\<close>

text \<open>
  C8. While the socket is not open, sendCommand, with or without a callback, logs one
  error line and does nothing else: no frame is sent, and the pending callbacks and the
  identifier counter are as before. sendCommand has no statement that throws: its model
  returns the client and nothing else.
\<close>

theorem sendCommand_while_not_open:
  assumes "readyState w \<noteq> OPEN"
  shows "done_by (sendCommand cmd callback) w =
           [Log Error (''['' @ name w @ ''] WebSocket not open. Cannot send: '' @ cmd)]
         \<and> frames (done_by (sendCommand cmd callback) w) = []
         \<and> callbacks (sendCommand cmd callback w) = callbacks w
         \<and> lastIdentifier (sendCommand cmd callback w) = lastIdentifier w
         \<and> (sendCommand cmd callback w)\<lparr>effects := effects w\<rparr> = w"
proof -
  note e = sendCommand_not_open [OF assms, of cmd callback]
  have d: "done_by (sendCommand cmd callback) w =
           [Log Error (''['' @ name w @ ''] WebSocket not open. Cannot send: '' @ cmd)]"
    unfolding done_by_def e by simp
  show ?thesis unfolding d by (simp add: e)
qed


theorem sendCommand_while_not_open_witness:
  "readyState example_client \<noteq> OPEN \<and>
   done_by (sendCommand ''status'' (Some 7)) example_client =
     [Log Error ''[Main] WebSocket not open. Cannot send: status''] \<and>
   lastIdentifier (sendCommand ''status'' (Some 7) example_client) = 1000"
proof -
  have c: "readyState example_client \<noteq> OPEN" "name example_client = ''Main''"
    "lastIdentifier example_client = 1000"
    by (simp_all add: example_client_def example_config_def new_RconClient_def connect_def logger_def)
  from sendCommand_while_not_open [OF c(1), of "''status''" "Some 7"] c show ?thesis by simp
qed


text \<open>
  C6. On an open socket, after any history of the client: with a callback, sendCommand
  increments the counter, stores the callback under the new value and sends the frame
  with that value as its identifier; the value is above 1000 and above every identifier
  sent before, so the identifiers sent with callbacks increase strictly and are distinct;
  the callback is in place when the frame goes out, so that a reply arriving next calls
  it. Without a callback the frame carries \<open>-1\<close> and neither the counter nor the
  callbacks change. The frame is the object of \<open>Identifier\<close>, \<open>Message\<close> (the command)
  and \<open>Name\<close> (\<open>NodeRcon\<close>).
\<close>

theorem sendCommand_identifiers:
  assumes "run env history (new_RconClient cfg) = (Returned, w)" and "readyState w = OPEN"
  shows
    "sendCommand cmd (Some cb) w =
       w\<lparr>lastIdentifier := lastIdentifier w + 1,
         callbacks := (callbacks w)(lastIdentifier w + 1 \<mapsto> cb),
         effects := effects w @
           [WsSend \<lparr>Identifier = lastIdentifier w + 1, Message = cmd, Name = ''NodeRcon''\<rparr>,
            Log Info (''['' @ name w @ ''] Sent command: '' @ cmd)]\<rparr>
     \<and> sendCommand cmd None w =
       w\<lparr>effects := effects w @
           [WsSend \<lparr>Identifier = - 1, Message = cmd, Name = ''NodeRcon''\<rparr>,
            Log Info (''['' @ name w @ ''] Sent command: '' @ cmd)]\<rparr>
     \<and> 1000 < lastIdentifier w + 1
     \<and> (\<forall>i \<in> set (issued_ids (effects w)). 1000 < i \<and> i < lastIdentifier w + 1)
     \<and> sorted_wrt (<) (issued_ids (effects (sendCommand cmd (Some cb) w)))
     \<and> distinct (issued_ids (effects (sendCommand cmd (Some cb) w)))
     \<and> on_message data (Some (JValue (Some (lastIdentifier w + 1)) body)) (sendCommand cmd (Some cb) w) =
         (Returned,
          (sendCommand cmd (Some cb) w)
            \<lparr>effects := effects (sendCommand cmd (Some cb) w) @
               [Invoke cb (JValue (Some (lastIdentifier w + 1)) body)],
             callbacks := (callbacks (sendCommand cmd (Some cb) w))(lastIdentifier w + 1 := None)\<rparr>)"
proof -
  have inv: "client_inv w" using inv_history [OF assms(1)] .
  note a = sendCommand_open_callback [OF assms(2), of cmd cb]
  note b = sendCommand_open_plain [OF assms(2), of cmd]
  have c: "1000 < lastIdentifier w + 1" using inv unfolding client_inv_def by simp
  have d: "\<forall>i \<in> set (issued_ids (effects w)). 1000 < i \<and> i < lastIdentifier w + 1"
    using inv unfolding client_inv_def by auto
  have inv': "client_inv (sendCommand cmd (Some cb) w)" using inv_sendCommand [OF inv] .
  then have e: "sorted_wrt (<) (issued_ids (effects (sendCommand cmd (Some cb) w)))"
    unfolding client_inv_def by simp
  then have f: "distinct (issued_ids (effects (sendCommand cmd (Some cb) w)))"
    using strict_sorted_iff by blast
  have g: "on_message data (Some (JValue (Some (lastIdentifier w + 1)) body)) (sendCommand cmd (Some cb) w) =
         (Returned,
          (sendCommand cmd (Some cb) w)
            \<lparr>effects := effects (sendCommand cmd (Some cb) w) @
               [Invoke cb (JValue (Some (lastIdentifier w + 1)) body)],
             callbacks := (callbacks (sendCommand cmd (Some cb) w))(lastIdentifier w + 1 := None)\<rparr>)"
    using c by (intro on_message_deliver) (simp_all add: a)
  from a b c d e f g show ?thesis by blast
qed

lemma example_open:
  "run env [SocketOpen] (new_RconClient example_config) = (Returned, on_open example_client)"
  "readyState (on_open example_client) = OPEN"
  "name (on_open example_client) = ''Main''"
  "lastIdentifier (on_open example_client) = 1000"
  "callbacks (on_open example_client) = Map.empty"
  by (simp_all add: on_open_def logger_def example_client_def example_config_def new_RconClient_def connect_def)

theorem sendCommand_identifiers_witness:
  "run example_environment [SocketOpen] (new_RconClient example_config) =
     (Returned, on_open example_client) \<and>
   readyState (on_open example_client) = OPEN \<and>
   lastIdentifier (sendCommand ''status'' (Some 7) (on_open example_client)) = 1001 \<and>
   callbacks (sendCommand ''status'' (Some 7) (on_open example_client)) 1001 = Some 7 \<and>
   frames (done_by (sendCommand ''status'' (Some 7)) (on_open example_client)) =
     [\<lparr>Identifier = 1001, Message = ''status'', Name = ''NodeRcon''\<rparr>] \<and>
   frames (done_by (sendCommand ''status'' None) (on_open example_client)) =
     [\<lparr>Identifier = - 1, Message = ''status'', Name = ''NodeRcon''\<rparr>]"
proof -
  note t = sendCommand_identifiers [OF example_open(1)[of example_environment] example_open(2),
      where cmd = "''status''" and cb = 7 and data = "[]" and body = "[]"]
  from t have a: "sendCommand ''status'' (Some 7) (on_open example_client) =
       (on_open example_client)\<lparr>lastIdentifier := 1001,
         callbacks := (callbacks (on_open example_client))(1001 \<mapsto> 7),
         effects := effects (on_open example_client) @
           [WsSend \<lparr>Identifier = 1001, Message = ''status'', Name = ''NodeRcon''\<rparr>,
            Log Info ''[Main] Sent command: status'']\<rparr>"
    by (simp add: example_open)
  from t have b: "sendCommand ''status'' None (on_open example_client) =
       (on_open example_client)\<lparr>effects := effects (on_open example_client) @
           [WsSend \<lparr>Identifier = - 1, Message = ''status'', Name = ''NodeRcon''\<rparr>,
            Log Info ''[Main] Sent command: status'']\<rparr>"
    by (simp add: example_open)
  show ?thesis
    unfolding done_by_def a b by (simp add: example_open example_client_def [symmetric])
qed

section \<open>Properties of the message handler\<close>

text \<open>
  C7. An inbound frame that parses, whose identifier is present, above 1000 and a key of
  the pending callbacks, calls the stored callback with the parsed message and removes
  the entry. In every other case no callback is called and the pending callbacks are as
  before: a frame that does not parse is logged; a frame without identifier, with an
  identifier of at most 1000 or with one that is no key is dropped, as is, after any
  history, one above the counter (never issued).
\<close>

theorem on_message_dispatch:
  "(\<forall>i body cb. parse_result = Some (JValue (Some i) body) \<and> 1000 < i \<and> callbacks w i = Some cb \<longrightarrow>
      on_message data parse_result w =
        (Returned, w\<lparr>effects := effects w @ [Invoke cb (JValue (Some i) body)],
                     callbacks := (callbacks w)(i := None)\<rparr>))
   \<and> ((\<nexists>i body. parse_result = Some (JValue (Some i) body) \<and> 1000 < i \<and> callbacks w i \<noteq> None) \<longrightarrow>
        callbacks (snd (on_message data parse_result w)) = callbacks w \<and>
        calls (effects (snd (on_message data parse_result w))) = calls (effects w))
   \<and> on_message data None w =
        (Returned, w\<lparr>effects := effects w @ [Log Error (''['' @ name w @ ''] Error parsing message: '' @ data)]\<rparr>)
   \<and> on_message data (Some (JValue None body')) w = (Returned, w)
   \<and> (j \<le> 1000 \<longrightarrow> on_message data (Some (JValue (Some j) body')) w = (Returned, w))
   \<and> (callbacks w j = None \<longrightarrow> on_message data (Some (JValue (Some j) body')) w = (Returned, w))
   \<and> (run env history (new_RconClient cfg) = (Returned, w) \<and> lastIdentifier w < j \<longrightarrow>
        on_message data (Some (JValue (Some j) body')) w = (Returned, w))"
proof -
  have a: "on_message data parse_result w =
        (Returned, w\<lparr>effects := effects w @ [Invoke cb (JValue (Some i) body)],
                     callbacks := (callbacks w)(i := None)\<rparr>)"
    if "parse_result = Some (JValue (Some i) body)" "1000 < i" "callbacks w i = Some cb" for i body cb
    using that on_message_deliver by simp
  have b: "callbacks (snd (on_message data parse_result w)) = callbacks w \<and>
        calls (effects (snd (on_message data parse_result w))) = calls (effects w)"
    if "\<nexists>i body. parse_result = Some (JValue (Some i) body) \<and> 1000 < i \<and> callbacks w i \<noteq> None"
    using on_message_cases [of data parse_result w] that by (auto simp: logger_def)
  have c: "on_message data None w =
        (Returned, w\<lparr>effects := effects w @ [Log Error (''['' @ name w @ ''] Error parsing message: '' @ data)]\<rparr>)"
    unfolding on_message_def by (simp add: logger_def tag_def)
  have d: "on_message data (Some (JValue None body')) w = (Returned, w)"
    unfolding on_message_def by simp
  have e: "on_message data (Some (JValue (Some j) body')) w = (Returned, w)" if "j \<le> 1000"
    unfolding on_message_def using that by simp
  have f: "on_message data (Some (JValue (Some j) body')) w = (Returned, w)" if "callbacks w j = None"
    using on_message_no_callback [OF that] .
  have g: "on_message data (Some (JValue (Some j) body')) w = (Returned, w)"
    if "run env history (new_RconClient cfg) = (Returned, w)" "lastIdentifier w < j"
  proof -
    have "client_inv w" using inv_history [OF that(1)] .
    then have "callbacks w j = None" using that(2) unfolding client_inv_def by force
    then show ?thesis by (rule f)
  qed
  from a b c d e f g show ?thesis by blast
qed

theorem on_message_dispatch_witness:
  "calls (effects (snd (on_message ''{}'' (Some (JValue (Some 1001) ''ok''))
            (sendCommand ''status'' (Some 7) (on_open example_client))))) =
     [(7, JValue (Some 1001) ''ok'')] \<and>
   callbacks (snd (on_message ''{}'' (Some (JValue (Some 1001) ''ok''))
            (sendCommand ''status'' (Some 7) (on_open example_client)))) 1001 = None \<and>
   on_message ''{}'' (Some (JValue (Some 1000) ''ok''))
      (sendCommand ''status'' (Some 7) (on_open example_client)) =
     (Returned, sendCommand ''status'' (Some 7) (on_open example_client)) \<and>
   on_message ''{}'' (Some (JValue (Some 1002) ''ok''))
      (sendCommand ''status'' (Some 7) (on_open example_client)) =
     (Returned, sendCommand ''status'' (Some 7) (on_open example_client))"
proof -
  define w where "w = sendCommand ''status'' (Some 7) (on_open example_client)"
  have c: "callbacks w 1001 = Some 7" "callbacks w 1002 = None" "calls (effects w) = []"
    unfolding w_def sendCommand_open_callback [OF example_open(2)]
    by (simp_all add: example_open on_open_def logger_def example_client_def example_config_def new_RconClient_def
        connect_def)
  note t1 = on_message_dispatch [where parse_result = "Some (JValue (Some 1001) ''ok'')" and w = w
      and data = "''{}''" and j = 1000 and body' = "''ok''" and env = example_environment
      and history = "[]" and cfg = "\<lparr>name = [], host = [], port = 0, password = []\<rparr>"]
  note t2 = on_message_dispatch [where parse_result = "None" and w = w
      and data = "''{}''" and j = 1002 and body' = "''ok''" and env = example_environment
      and history = "[]" and cfg = "\<lparr>name = [], host = [], port = 0, password = []\<rparr>"]
  from t1 c(1) have a: "on_message ''{}'' (Some (JValue (Some 1001) ''ok'')) w =
        (Returned, w\<lparr>effects := effects w @ [Invoke 7 (JValue (Some 1001) ''ok'')],
                     callbacks := (callbacks w)(1001 := None)\<rparr>)"
    by simp
  from t1 have b: "on_message ''{}'' (Some (JValue (Some 1000) ''ok'')) w = (Returned, w)" by simp
  from t2 c(2) have d: "on_message ''{}'' (Some (JValue (Some 1002) ''ok'')) w = (Returned, w)" by simp
  show ?thesis unfolding w_def [symmetric] a b d using c(3) by simp
qed

text \<open>
  C10. After any history, once an inbound frame with identifier \<open>i\<close> has called its
  pending callback, which removes the entry, \<open>i\<close> has no pending callback again, whatever
  happens later; a later frame with the same identifier calls nothing and leaves the
  client as it is.
\<close>

theorem reply_at_most_once:
  assumes "run env history (new_RconClient cfg) = (Returned, w)"
    and "callbacks w i = Some cb"
    and "on_message data (Some (JValue (Some i) body)) w = (out, w1)"
    and "run env later w1 = (out', w2)"
  shows "out = Returned
       \<and> w1 = w\<lparr>effects := effects w @ [Invoke cb (JValue (Some i) body)],
                callbacks := (callbacks w)(i := None)\<rparr>
       \<and> callbacks w2 i = None
       \<and> on_message data' (Some (JValue (Some i) body')) w2 = (Returned, w2)"
proof -
  have inv: "client_inv w" using inv_history [OF assms(1)] .
  then have i: "1000 < i" "i \<le> lastIdentifier w" using assms(2) unfolding client_inv_def by auto
  have d: "on_message data (Some (JValue (Some i) body)) w =
     (Returned, w\<lparr>effects := effects w @ [Invoke cb (JValue (Some i) body)],
                  callbacks := (callbacks w)(i := None)\<rparr>)"
    using on_message_deliver [OF assms(2) i(1)] .
  with assms(3) have o: "out = Returned"
    and w1: "w1 = w\<lparr>effects := effects w @ [Invoke cb (JValue (Some i) body)],
                callbacks := (callbacks w)(i := None)\<rparr>" by simp_all
  have "callbacks w1 i = None \<and> i \<le> lastIdentifier w1" unfolding w1 using i by simp
  then have s: "callbacks w2 i = None" using spent_run [OF _ assms(4)] by blast
  from o w1 s on_message_no_callback [OF s] show ?thesis by blast
qed

theorem reply_at_most_once_witness:
  "fst (run example_environment [SocketOpen, Send ''status'' (Some 7)] example_client) = Returned \<and>
   callbacks (snd (run example_environment [SocketOpen, Send ''status'' (Some 7)] example_client)) 1001
     = Some 7 \<and>
   on_message ''{}'' (Some (JValue (Some 1001) ''again''))
     (snd (run example_environment [Send ''players'' (Some 8)]
        (snd (on_message ''{}'' (Some (JValue (Some 1001) ''ok''))
           (snd (run example_environment [SocketOpen, Send ''status'' (Some 7)] example_client)))))) =
   (Returned,
     snd (run example_environment [Send ''players'' (Some 8)]
        (snd (on_message ''{}'' (Some (JValue (Some 1001) ''ok''))
           (snd (run example_environment [SocketOpen, Send ''status'' (Some 7)] example_client))))))"
proof -
  define w where "w = sendCommand ''status'' (Some 7) (on_open example_client)"
  have r: "run example_environment [SocketOpen, Send ''status'' (Some 7)] (new_RconClient example_config)
           = (Returned, w)"
    unfolding w_def by (simp add: example_client_def)
  have c: "callbacks w 1001 = Some 7"
    unfolding w_def sendCommand_open_callback [OF example_open(2)] by (simp add: example_open)
  define w1 where "w1 = snd (on_message ''{}'' (Some (JValue (Some 1001) ''ok'')) w)"
  define w2 where "w2 = snd (run example_environment [Send ''players'' (Some 8)] w1)"
  have m: "on_message ''{}'' (Some (JValue (Some 1001) ''ok'')) w =
           (fst (on_message ''{}'' (Some (JValue (Some 1001) ''ok'')) w), w1)"
    unfolding w1_def by simp
  have l: "run example_environment [Send ''players'' (Some 8)] w1 =
           (fst (run example_environment [Send ''players'' (Some 8)] w1), w2)"
    unfolding w2_def by simp
  from reply_at_most_once [OF r c m l, of "''{}''" "''again''"]
  have "on_message ''{}'' (Some (JValue (Some 1001) ''again'')) w2 = (Returned, w2)" by simp
  then show ?thesis unfolding w2_def w1_def using r c by (simp add: example_client_def)
qed

section \<open>A frame that makes the handler throw\<close>

text \<open>
  C9. The specification says that no inbound frame makes the program throw. The handler
  guards \<open>JSON.parse\<close> with \<open>try\<close>, but reads \<open>message.Identifier\<close> after it: for the
  frame \<open>null\<close>, which parses, the read throws a TypeError that nothing catches, and the
  history of the client ends there.
\<close>

theorem null_frame_throws:
  "on_message data (Some JNull) w = (Thrown TypeError, w)
   \<and> run env (Frame ''null'' (Some JNull) # later) w = (Thrown TypeError, w)
   \<and> fst (run example_environment [SocketOpen, Frame ''null'' (Some JNull)] example_client)
       = Thrown TypeError"
  by (simp add: on_message_def)

end
